theory Spec2Isabelle
  imports Complex_Main
begin

section \<open>The KTR model template (orbit/template/ktr.py)\<close>

text \<open>
  A shallow embedding of the class \<open>KTRModel\<close>. The object is a record \<open>ktr\<close>; a method
  takes the object and returns the updated object, or an exception as the left summand.
  Floating-point numbers are read as real numbers (arithmetic is exact), except where the
  rounding of a double decides how many level knots a prediction has: there every rounding
  is written out. Dates are integers counted in periods of the series' frequency, an array
  of shape \<open>(a, b)\<close> is a list of \<open>a\<close> rows of length \<open>b\<close>. A private attribute
  \<open>_x\<close> of the source is the field \<open>priv_x\<close>.
\<close>

subsection \<open>Exceptions and small helpers\<close>

datatype error =
    IllegalArgument | ModelException
  | AttributeError | IndexError | KeyError | OverflowError | RuntimeError | TypeError
  | ValueError | ZeroDivisionError

type_synonym date = int
type_synonym vec = "real list"
type_synonym matrix = "real list list"

text \<open>
  A float that may be \<open>NaN\<close> is a \<open>real option\<close>, \<open>None\<close> for \<open>NaN\<close>: the mean and the
  median of an empty slice are \<open>NaN\<close>, and a comparison with \<open>NaN\<close> is false.
\<close>

type_synonym fmatrix = "real option list list"

definition then_e :: "error + 'a \<Rightarrow> ('a \<Rightarrow> error + 'b) \<Rightarrow> error + 'b" where
  "then_e r f = (case r of Inl e \<Rightarrow> Inl e | Inr x \<Rightarrow> f x)"

definition nth_e :: "'a list \<Rightarrow> nat \<Rightarrow> error + 'a" where
  "nth_e xs i = (if i < length xs then Inr (xs ! i) else Inl IndexError)"

definition DEFAULT_REGRESSOR_SIGN :: string where
  "DEFAULT_REGRESSOR_SIGN = ''=''"

definition DEFAULT_COEFFICIENTS_INIT_KNOT_SCALE :: real where
  "DEFAULT_COEFFICIENTS_INIT_KNOT_SCALE = 1"

definition DEFAULT_COEFFICIENTS_INIT_KNOT_LOC :: real where
  "DEFAULT_COEFFICIENTS_INIT_KNOT_LOC = 0"

definition DEFAULT_COEFFICIENTS_KNOT_SCALE :: real where
  "DEFAULT_COEFFICIENTS_KNOT_SCALE = 1 / 10"

definition DEFAULT_LOWER_BOUND_SCALE_MULTIPLIER :: real where
  "DEFAULT_LOWER_BOUND_SCALE_MULTIPLIER = 1 / 100"

definition DEFAULT_UPPER_BOUND_SCALE_MULTIPLIER :: real where
  "DEFAULT_UPPER_BOUND_SCALE_MULTIPLIER = 1"

subsection \<open>Coefficient priors\<close>

text \<open>
  A prior is a Python dictionary. \<open>prior_keys\<close> lists its keys in the order of their
  insertion (a dictionary holds a key once, so the list has no repetition); the other
  fields are the values. The mean and the sd are given as one number per target column
  (the validation takes their \<open>len\<close>); \<open>_filter_coef_prior\<close> replaces them by full
  arrays. The seventh key is added by \<open>_set_coef_prior_idx\<close>.
\<close>

datatype prior_key =
    NAME | PRIOR_START_TP_IDX | PRIOR_END_TP_IDX | PRIOR_MEAN | PRIOR_SD
  | PRIOR_REGRESSOR_COL | PRIOR_REGRESSOR_COL_IDX

datatype prior_val = Given vec | Full matrix

record coef_prior =
  prior_keys :: "prior_key list"
  prior_name :: string
  prior_start_tp_idx :: int
  prior_end_tp_idx :: int
  prior_mean :: prior_val
  prior_sd :: prior_val
  prior_regressor_col :: "string list"
  prior_regressor_col_idx :: "nat list option"

fun len_val :: "prior_val \<Rightarrow> nat" where
  "len_val (Given v) = length v"
| "len_val (Full a) = length a"

subsection \<open>The model object\<close>

record ktr_args =
  arg_level_knot_scale :: real
  arg_regressor_col :: "string list option"
  arg_regressor_sign :: "string list option"
  arg_regressor_init_knot_loc :: "vec option"
  arg_regressor_init_knot_scale :: "vec option"
  arg_regressor_knot_scale :: "vec option"
  arg_regression_segments :: int
  arg_regression_knot_distance :: "int option"
  arg_regression_knot_dates :: "date list option"
  arg_regression_rho :: real
  arg_degree_of_freedom :: real
  arg_coef_prior_list :: "coef_prior list option"
  arg_flat_multiplier :: bool
  arg_inherited_rho_coefficients :: "real option"

record ktr =
  level_knot_scale :: real
  knots_tp_level :: "vec option"
  regressor_col :: "string list option"
  regressor_sign :: "string list option"
  regressor_init_knot_loc :: "vec option"
  regressor_init_knot_scale :: "vec option"
  regressor_knot_scale :: "vec option"
  regression_knot_distance :: "int option"
  regression_segments :: int
  priv_regression_knot_dates :: "date list option"
  regression_rho :: real
  rho_coefficients :: "real option"
  flat_multiplier :: bool
  degree_of_freedom :: real
  priv_regressor_sign :: "string list option"
  priv_regressor_init_knot_loc :: "vec option"
  priv_regressor_init_knot_scale :: "vec option"
  priv_regressor_knot_scale :: "vec option"
  coef_prior_list :: "coef_prior list option"
  priv_coef_prior_list :: "coef_prior list"
  priv_regression_knots_idx :: "int list option"
  priv_num_of_regressors :: nat
  priv_num_of_positive_regressors :: nat
  priv_positive_regressor_col :: "string list"
  priv_positive_regressor_init_knot_loc :: vec
  priv_positive_regressor_init_knot_scale :: vec
  priv_positive_regressor_knot_scale :: vec
  priv_num_of_regular_regressors :: nat
  priv_regular_regressor_col :: "string list"
  priv_regular_regressor_init_knot_loc :: vec
  priv_regular_regressor_init_knot_scale :: vec
  priv_regular_regressor_knot_scale :: vec
  priv_regressor_col :: "string list"
  priv_knots_tp_coefficients :: "vec option"
  priv_positive_regressor_matrix :: "matrix option"
  priv_regular_regressor_matrix :: "matrix option"
  priv_cutoff :: "nat option"
  priv_kernel_coefficients :: "matrix option"
  priv_positive_regressor_knot_scale_2d :: "fmatrix option"
  priv_regular_regressor_knot_scale_2d :: "fmatrix option"
  priv_seasonal_knots_input :: "(nat \<Rightarrow> real) option option"

text \<open>
  Three fields stand for attributes that the class reads and its own code does not settle.
  \<open>rho_coefficients\<close> is read by \<open>_get_regression_coefs_matrix\<close> and assigned by no
  method of the class (the constructor stores its bandwidth as \<open>regression_rho\<close>): the
  field is \<open>None\<close> when the object has no such attribute, and holds what the base template
  left there otherwise. \<open>priv_seasonal_knots_input\<close> is \<open>None\<close> when the object has no
  attribute \<open>_seasonal_knots_input\<close>, \<open>Some None\<close> when the attribute is Python's
  \<open>None\<close>, and otherwise gives the seasonal curve that \<open>_generate_seas\<close> computes from
  it, as a value for every row of the prediction frame. The constructor does not create
  the attribute; its one assignment (line 760) stands under \<open>if self._seasonality\<close>, and
  \<open>_seasonality\<close> is \<open>None\<close> from line 211 on. The two-dimensional knot scales that
  \<open>_set_knots_scale_matrix\<close> binds to \<open>_positive_regressor_knot_scale\<close> and
  \<open>_regular_regressor_knot_scale\<close> are kept in fields of their own
  (\<open>..._knot_scale_2d\<close>), since a record field has one type.
\<close>

subsection \<open>Construction: \<open>__init__\<close>, \<open>_set_default_args\<close>,
  \<open>_set_static_regression_attributes\<close>\<close>

definition init_fields :: "ktr_args \<Rightarrow> ktr" where
  "init_fields a =
     \<lparr> level_knot_scale = arg_level_knot_scale a,
       knots_tp_level = None,
       regressor_col = arg_regressor_col a,
       regressor_sign = arg_regressor_sign a,
       regressor_init_knot_loc = arg_regressor_init_knot_loc a,
       regressor_init_knot_scale = arg_regressor_init_knot_scale a,
       regressor_knot_scale = arg_regressor_knot_scale a,
       regression_knot_distance = arg_regression_knot_distance a,
       \<comment> \<open>line 225 stores the argument, line 243 overwrites it\<close>
       regression_segments = 0,
       priv_regression_knot_dates = arg_regression_knot_dates a,
       regression_rho = arg_regression_rho a,
       rho_coefficients = arg_inherited_rho_coefficients a,
       flat_multiplier = arg_flat_multiplier a,
       degree_of_freedom = arg_degree_of_freedom a,
       priv_regressor_sign = arg_regressor_sign a,
       priv_regressor_init_knot_loc = arg_regressor_init_knot_loc a,
       priv_regressor_init_knot_scale = arg_regressor_init_knot_scale a,
       priv_regressor_knot_scale = arg_regressor_knot_scale a,
       coef_prior_list = arg_coef_prior_list a,
       priv_coef_prior_list = [],
       priv_regression_knots_idx = None,
       priv_num_of_regressors = 0,
       priv_num_of_positive_regressors = 0,
       priv_positive_regressor_col = [],
       priv_positive_regressor_init_knot_loc = [],
       priv_positive_regressor_init_knot_scale = [],
       priv_positive_regressor_knot_scale = [],
       priv_num_of_regular_regressors = 0,
       priv_regular_regressor_col = [],
       priv_regular_regressor_init_knot_loc = [],
       priv_regular_regressor_init_knot_scale = [],
       priv_regular_regressor_knot_scale = [],
       priv_regressor_col = [],
       priv_knots_tp_coefficients = None,
       priv_positive_regressor_matrix = None,
       priv_regular_regressor_matrix = None,
       priv_cutoff = None,
       priv_kernel_coefficients = None,
       priv_positive_regressor_knot_scale_2d = None,
       priv_regular_regressor_knot_scale_2d = None,
       priv_seasonal_knots_input = None \<rparr>"

text \<open>\<open>_validate_params_len\<close>: every parameter list that is given has the valid length.\<close>

definition validate_params_len :: "nat option list \<Rightarrow> nat \<Rightarrow> error + unit" where
  "validate_params_len params valid_length =
     (if list_all (\<lambda>p. case p of None \<Rightarrow> True | Some l \<Rightarrow> l = valid_length) params
      then Inr () else Inl IllegalArgument)"

definition set_default_args :: "ktr \<Rightarrow> error + ktr" where
  "set_default_args m0 =
     (let m = (case coef_prior_list m0 of
                 None \<Rightarrow> m0
               | Some ps \<Rightarrow> m0\<lparr>priv_coef_prior_list := ps\<rparr>)
      in case regressor_col m of
           None \<Rightarrow>
             Inr (m\<lparr>priv_regressor_sign := Some [],
                    priv_regressor_init_knot_loc := Some [],
                    priv_regressor_init_knot_scale := Some [],
                    priv_regressor_knot_scale := Some []\<rparr>)
         | Some cols \<Rightarrow>
             (let num_of_regressors = length cols in
              then_e (validate_params_len
                        [map_option length (regressor_sign m),
                         map_option length (regressor_init_knot_loc m),
                         map_option length (regressor_init_knot_scale m),
                         map_option length (regressor_knot_scale m)] num_of_regressors)
                (\<lambda>_. Inr (m\<lparr>
                   priv_regressor_sign :=
                     (case regressor_sign m of
                        None \<Rightarrow> Some (replicate num_of_regressors DEFAULT_REGRESSOR_SIGN)
                      | Some _ \<Rightarrow> priv_regressor_sign m),
                   priv_regressor_init_knot_loc :=
                     (case regressor_init_knot_loc m of
                        None \<Rightarrow> Some (replicate num_of_regressors DEFAULT_COEFFICIENTS_INIT_KNOT_LOC)
                      | Some _ \<Rightarrow> priv_regressor_init_knot_loc m),
                   priv_regressor_init_knot_scale :=
                     (case regressor_init_knot_scale m of
                        None \<Rightarrow> Some (replicate num_of_regressors DEFAULT_COEFFICIENTS_INIT_KNOT_SCALE)
                      | Some _ \<Rightarrow> priv_regressor_init_knot_scale m),
                   priv_regressor_knot_scale :=
                     (case regressor_knot_scale m of
                        None \<Rightarrow> Some (replicate num_of_regressors DEFAULT_COEFFICIENTS_KNOT_SCALE)
                      | Some _ \<Rightarrow> priv_regressor_knot_scale m),
                   priv_num_of_regressors := num_of_regressors\<rparr>))))"

text \<open>
  The loop of \<open>_set_static_regression_attributes\<close> over \<open>enumerate(self._regressor_sign)\<close>:
  one step files the regressor at \<open>index\<close> under the positive or the regular group.
\<close>

definition file_regressor :: "ktr \<Rightarrow> nat \<Rightarrow> string \<Rightarrow> error + ktr" where
  "file_regressor m index reg_sign =
     (case (regressor_col m, priv_regressor_init_knot_loc m,
            priv_regressor_init_knot_scale m, priv_regressor_knot_scale m) of
        (Some cols, Some locs, Some scales, Some kscales) \<Rightarrow>
          then_e (nth_e cols index) (\<lambda>c.
          then_e (nth_e locs index) (\<lambda>l.
          then_e (nth_e scales index) (\<lambda>s.
          then_e (nth_e kscales index) (\<lambda>k.
            if reg_sign = ''+'' then
              Inr (m\<lparr>priv_num_of_positive_regressors := priv_num_of_positive_regressors m + 1,
                     priv_positive_regressor_col := priv_positive_regressor_col m @ [c],
                     priv_positive_regressor_init_knot_loc :=
                       priv_positive_regressor_init_knot_loc m @ [l],
                     priv_positive_regressor_init_knot_scale :=
                       priv_positive_regressor_init_knot_scale m @ [s],
                     priv_positive_regressor_knot_scale :=
                       priv_positive_regressor_knot_scale m @ [k]\<rparr>)
            else
              Inr (m\<lparr>priv_num_of_regular_regressors := priv_num_of_regular_regressors m + 1,
                     priv_regular_regressor_col := priv_regular_regressor_col m @ [c],
                     priv_regular_regressor_init_knot_loc :=
                       priv_regular_regressor_init_knot_loc m @ [l],
                     priv_regular_regressor_init_knot_scale :=
                       priv_regular_regressor_init_knot_scale m @ [s],
                     priv_regular_regressor_knot_scale :=
                       priv_regular_regressor_knot_scale m @ [k]\<rparr>)))))
      | _ \<Rightarrow> Inl TypeError)"

fun file_regressors :: "ktr \<Rightarrow> nat \<Rightarrow> string list \<Rightarrow> error + ktr" where
  "file_regressors m index [] = Inr m"
| "file_regressors m index (reg_sign # signs) =
     then_e (file_regressor m index reg_sign) (\<lambda>m'. file_regressors m' (Suc index) signs)"

definition set_static_regression_attributes :: "ktr \<Rightarrow> error + ktr" where
  "set_static_regression_attributes m =
     (if priv_num_of_regressors m = 0 then Inr m
      else case priv_regressor_sign m of
             None \<Rightarrow> Inl TypeError
           | Some signs \<Rightarrow>
               then_e (file_regressors m 0 signs) (\<lambda>m'.
                 \<comment> \<open>regular first, then positive\<close>
                 Inr (m'\<lparr>priv_regressor_col :=
                            priv_regular_regressor_col m' @ priv_positive_regressor_col m'\<rparr>)))"

text \<open>
  \<open>_validate_coef_prior\<close>: every dictionary has exactly the six documented keys, in any
  order, and its mean, sd and target columns have one length.
\<close>

definition validate_coef_prior :: "coef_prior list \<Rightarrow> error + unit" where
  "validate_coef_prior ps =
     (if list_all (\<lambda>p. set (prior_keys p) =
                          {NAME, PRIOR_START_TP_IDX, PRIOR_END_TP_IDX, PRIOR_MEAN, PRIOR_SD,
                           PRIOR_REGRESSOR_COL} \<and>
                        len_val (prior_mean p) = length (prior_regressor_col p) \<and>
                        len_val (prior_sd p) = length (prior_regressor_col p)) ps
      then Inr () else Inl IllegalArgument)"

text \<open>\<open>np.where(np.array(cols) == col)[0][0]\<close>: the first position of \<open>col\<close>.\<close>

fun first_index :: "'a list \<Rightarrow> 'a \<Rightarrow> nat \<Rightarrow> error + nat" where
  "first_index [] c i = Inl IndexError"
| "first_index (x # xs) c i = (if x = c then Inr i else first_index xs c (Suc i))"

fun map_e :: "('a \<Rightarrow> error + 'b) \<Rightarrow> 'a list \<Rightarrow> error + 'b list" where
  "map_e f [] = Inr []"
| "map_e f (x # xs) = then_e (f x) (\<lambda>y. then_e (map_e f xs) (\<lambda>ys. Inr (y # ys)))"

text \<open>\<open>d.update({key: value})\<close> on the key list: a new key goes to the end.\<close>

definition update_key :: "prior_key \<Rightarrow> prior_key list \<Rightarrow> prior_key list" where
  "update_key k ks = (if k \<in> set ks then ks else ks @ [k])"

definition set_coef_prior_idx :: "ktr \<Rightarrow> error + ktr" where
  "set_coef_prior_idx m =
     (if priv_coef_prior_list m \<noteq> [] \<and> length (priv_regressor_col m) > 0 then
        then_e (map_e (\<lambda>x. then_e (map_e (\<lambda>col. first_index (priv_regressor_col m) col 0)
                                         (prior_regressor_col x))
                              (\<lambda>idx. Inr (x\<lparr>prior_regressor_col_idx := Some idx,
                                             prior_keys := update_key PRIOR_REGRESSOR_COL_IDX
                                                             (prior_keys x)\<rparr>)))
                      (priv_coef_prior_list m))
          (\<lambda>ps. Inr (m\<lparr>priv_coef_prior_list := ps\<rparr>))
      else Inr m)"

definition set_static_attributes :: "ktr \<Rightarrow> error + ktr" where
  "set_static_attributes m =
     then_e (set_default_args m) (\<lambda>m1.
     then_e (set_static_regression_attributes m1) (\<lambda>m2.
       if priv_coef_prior_list m2 \<noteq> [] then
         then_e (validate_coef_prior (priv_coef_prior_list m2)) (\<lambda>_. set_coef_prior_idx m2)
       else Inr m2))"

definition KTRModel_init :: "ktr_args \<Rightarrow> error + ktr" where
  "KTRModel_init a = set_static_attributes (init_fields a)"

subsection \<open>Frames and training metadata\<close>

text \<open>
  A data frame is its date column and its named numeric columns; the training metadata is
  the dictionary that the fit orchestrator hands over.
\<close>

record data_frame =
  df_dates :: "date list"
  df_columns :: "(string \<times> vec) list"

record training_meta =
  num_of_observations :: nat
  date_array :: "date list"
  training_start :: date
  training_end :: date

text \<open>
  \<open>df.filter(items=cols).values\<close>: the columns of the frame named in \<open>cols\<close>, in the
  order of \<open>cols\<close>, as rows of values (one row per row of the frame). Every column of a
  frame has as many entries as the frame has rows.
\<close>

definition filter_values :: "data_frame \<Rightarrow> string list \<Rightarrow> matrix" where
  "filter_values df cols =
     (let kept = List.map_filter (map_of (df_columns df)) cols
      in map (\<lambda>i. map (\<lambda>c. c ! i) kept) [0..<length (df_dates df)])"

subsection \<open>Knot placement: \<open>_set_knots_tp\<close>, \<open>_set_coefficients_kernel_matrix\<close>\<close>

text \<open>
  Python's \<open>round(d / 2)\<close> for an integer \<open>d\<close>: the quotient is exact, and a half is
  rounded to the even neighbour.
\<close>

definition round_half :: "int \<Rightarrow> int" where
  "round_half d =
     (if even d then d div 2
      else if even (d div 2) then d div 2 else d div 2 + 1)"

text \<open>\<open>math.ceil(c / k)\<close> on integers.\<close>

definition ceil_div :: "int \<Rightarrow> int \<Rightarrow> error + int" where
  "ceil_div c k = (if k = 0 then Inl ZeroDivisionError else Inr (- ((- c) div k)))"

text \<open>\<open>np.arange(start, stop, step)\<close> on integers.\<close>

definition np_arange :: "int \<Rightarrow> int \<Rightarrow> int \<Rightarrow> error + int list" where
  "np_arange start stop step =
     (if step = 0 then Inl ZeroDivisionError
      else Inr (map (\<lambda>k. start + int k * step)
                    [0..<nat (- ((- (stop - start)) div step))]))"

definition set_knots_tp :: "int \<Rightarrow> int \<Rightarrow> error + int list" where
  "set_knots_tp knots_distance cutoff =
     (let knots_idx_start = round_half knots_distance
      in np_arange knots_idx_start cutoff knots_distance)"

text \<open>Indexing an array by an integer array; a negative index counts from the end.\<close>

definition take_idx :: "'a list \<Rightarrow> int list \<Rightarrow> error + 'a list" where
  "take_idx xs idx =
     map_e (\<lambda>i. if 0 \<le> i \<and> i < int (length xs) then Inr (xs ! nat i)
                 else if i < 0 \<and> - int (length xs) \<le> i then Inr (xs ! nat (int (length xs) + i))
                 else Inl IndexError) idx"

text \<open>\<open>np.arange(1, N + 1) / N\<close>: the normalized time positions of the training rows.\<close>

definition time_points :: "nat \<Rightarrow> vec" where
  "time_points N = map (\<lambda>i. real (i + 1) / real N) [0..<N]"

text \<open>
  Modelled from the spec: \<open>gauss_kernel\<close> of \<open>orbit/utils/kernels.py\<close>, which is not among
  the sources. The spec gives \<open>K[i,j] = exp(-(t_i - k_j)^2 / (2 * rho^2))\<close>, one row per
  time position and one column per knot.
\<close>

definition gauss_kernel :: "vec \<Rightarrow> vec \<Rightarrow> real \<Rightarrow> matrix" where
  "gauss_kernel x x_i rho = map (\<lambda>t. map (\<lambda>k. exp (- ((t - k)\<^sup>2) / (2 * rho\<^sup>2))) x_i) x"

fun list_max :: "int list \<Rightarrow> int option" where
  "list_max [] = None"
| "list_max (x # xs) = Some (fold max xs x)"

fun list_min :: "int list \<Rightarrow> int option" where
  "list_min [] = None"
| "list_min (x # xs) = Some (fold min xs x)"

text \<open>
  The branch for knot dates given by the caller keeps the dates inside the frame's range
  and counts each in periods from the training start (\<open>_get_gap_between_dates\<close>; dates
  are already counted in periods of the frequency). Where numpy divides by zero (no
  observations, or a training range of no period) it gives \<open>inf\<close> or \<open>nan\<close> with a
  warning; the quotient of the model is HOL's there, and no property below rests on it.
\<close>

definition dates_in_range :: "data_frame \<Rightarrow> date list \<Rightarrow> date list" where
  "dates_in_range df ds =
     (case (list_min (df_dates df), list_max (df_dates df)) of
        (Some lo, Some hi) \<Rightarrow> filter (\<lambda>x. x \<le> hi \<and> x \<ge> lo) ds
      | _ \<Rightarrow> [])"

definition place_knots :: "ktr \<Rightarrow> data_frame \<Rightarrow> training_meta \<Rightarrow> error + ktr" where
  "place_knots m df tm =
     (let N = num_of_observations tm in
      case priv_regression_knot_dates m of
        None \<Rightarrow>
          then_e (case regression_knot_distance m of
                    Some d \<Rightarrow> Inr d
                  | None \<Rightarrow>
                      (let number_of_knots = regression_segments m + 1
                       in ceil_div (int N) number_of_knots)) (\<lambda>knots_distance.
          then_e (set_knots_tp knots_distance (int N)) (\<lambda>knots_idx_coef.
          then_e (take_idx (df_dates df) knots_idx_coef) (\<lambda>knot_dates.
            Inr (m\<lparr>priv_knots_tp_coefficients :=
                     Some (map (\<lambda>i. (1 + real_of_int i) / real N) knots_idx_coef),
                   priv_regression_knot_dates := Some knot_dates,
                   priv_regression_knots_idx := Some knots_idx_coef\<rparr>))))
      | Some ds \<Rightarrow>
          (let knot_dates = dates_in_range df ds;
               start_date = training_start tm;
               end_date = training_end tm;
               knots_idx = map (\<lambda>x. x - start_date) knot_dates
           in Inr (m\<lparr>priv_regression_knot_dates := Some knot_dates,
                      priv_knots_tp_coefficients :=
                        Some (map (\<lambda>i. (real_of_int i + 1) / (real_of_int (end_date - start_date) + 1))
                                  knots_idx),
                      priv_regression_knots_idx := Some knots_idx\<rparr>)))"

definition set_coefficients_kernel_matrix ::
    "ktr \<Rightarrow> data_frame \<Rightarrow> training_meta \<Rightarrow> error + ktr" where
  "set_coefficients_kernel_matrix m0 df tm =
     (let N = num_of_observations tm;
          tp = time_points N;
          m = m0\<lparr>priv_cutoff := Some N,
                 priv_kernel_coefficients := Some (replicate N []),
                 regression_segments := 0\<rparr>
      in if priv_num_of_regressors m > 0 then
           then_e (place_knots m df tm) (\<lambda>m1.
             case priv_knots_tp_coefficients m1 of
               None \<Rightarrow> Inl TypeError
             | Some knots_tp \<Rightarrow>
                 Inr (m1\<lparr>regression_segments := int (length knots_tp),
                         priv_kernel_coefficients :=
                           Some (gauss_kernel tp knots_tp (regression_rho m1))\<rparr>))
         else Inr m)"

subsection \<open>Regressor matrices and knot scales: \<open>_set_regressor_matrix\<close>,
  \<open>_set_knots_scale_matrix\<close>\<close>

definition set_regressor_matrix :: "ktr \<Rightarrow> data_frame \<Rightarrow> training_meta \<Rightarrow> error + ktr" where
  "set_regressor_matrix m df tm =
     (let N = num_of_observations tm in
      if (case regressor_col m of
            None \<Rightarrow> False
          | Some cols \<Rightarrow> \<not> list_all (\<lambda>c. c \<in> set (map fst (df_columns df))) cols)
      then Inl ModelException
      else Inr (m\<lparr>priv_positive_regressor_matrix :=
                     Some (if priv_num_of_positive_regressors m > 0
                           then filter_values df (priv_positive_regressor_col m)
                           else replicate N []),
                   priv_regular_regressor_matrix :=
                     Some (if priv_num_of_regular_regressors m > 0
                           then filter_values df (priv_regular_regressor_col m)
                           else replicate N [])\<rparr>))"

definition py_slice :: "'a list \<Rightarrow> int \<Rightarrow> int \<Rightarrow> 'a list" where
  "py_slice xs s e =
     (let n = int (length xs);
          s1 = (if s < 0 then max 0 (s + n) else min s n);
          e1 = (if e < 0 then max 0 (e + n) else min e n)
      in take (nat (e1 - s1)) (drop (nat s1) xs))"

definition mean_nan :: "vec \<Rightarrow> real option" where
  "mean_nan xs = (if xs = [] then None else Some (sum_list xs / real (length xs)))"

definition median_nan :: "vec \<Rightarrow> real option" where
  "median_nan xs =
     (let s = sort xs; n = length s in
      if n = 0 then None
      else if odd n then Some (s ! (n div 2))
      else Some ((s ! (n div 2 - 1) + s ! (n div 2)) / 2))"

definition lt_nan :: "real option \<Rightarrow> real option \<Rightarrow> bool" where
  "lt_nan a b = (case (a, b) of (Some x, Some y) \<Rightarrow> x < y | _ \<Rightarrow> False)"

definition abs_column :: "matrix \<Rightarrow> nat \<Rightarrow> vec" where
  "abs_column a r = map (\<lambda>row. \<bar>row ! r\<bar>) a"

text \<open>
  The loop over the knots: column \<open>idx\<close> of \<open>local_val\<close> becomes the mean absolute value of
  each regressor over the rows from knot \<open>idx\<close> up to the next knot (up to the series end
  for the last knot). Columns without a knot keep the initial \<open>1\<close>; a knot beyond the last
  column is an index error.
\<close>

definition local_volume :: "matrix \<Rightarrow> int list \<Rightarrow> nat \<Rightarrow> nat \<Rightarrow> nat \<Rightarrow> error + fmatrix" where
  "local_volume a knots_idx N num_regs segments =
     (if length knots_idx > segments then Inl IndexError
      else Inr (map (\<lambda>r. map (\<lambda>idx.
                  if idx < length knots_idx then
                    (let str_idx = knots_idx ! idx;
                         end_idx = (if idx < length knots_idx - 1 then knots_idx ! (idx + 1)
                                    else int N)
                     in mean_nan (abs_column (py_slice a str_idx end_idx) r))
                  else Some 1) [0..<segments]) [0..<num_regs]))"

text \<open>
  \<open>multiplier[test_flag] = DEFAULT_LOWER_BOUND_SCALE_MULTIPLIER\<close> on a matrix of ones,
  with \<open>test_flag = local_val < 0.01 * global_med\<close>, then the reset of rows that are
  \<open>NaN\<close> throughout.
\<close>

definition flag_multiplier :: "fmatrix \<Rightarrow> real option list \<Rightarrow> fmatrix" where
  "flag_multiplier local_val global_med =
     map (\<lambda>r. map (\<lambda>v. if lt_nan v (map_option (\<lambda>g. (1 / 100) * g) (global_med ! r))
                         then Some DEFAULT_LOWER_BOUND_SCALE_MULTIPLIER else Some 1)
                   (local_val ! r)) [0..<length local_val]"

definition reset_nan_rows :: "fmatrix \<Rightarrow> fmatrix" where
  "reset_nan_rows multiplier =
     map (\<lambda>row. if list_all (\<lambda>x. x = None) row then map (\<lambda>_. Some 1) row else row) multiplier"

definition ones :: "nat \<Rightarrow> nat \<Rightarrow> fmatrix" where
  "ones a b = replicate a (replicate b (Some 1))"

text \<open>Lines 544-567: the multiplier of the positive regressors.\<close>

definition positive_multiplier :: "ktr \<Rightarrow> training_meta \<Rightarrow> error + fmatrix" where
  "positive_multiplier m tm =
     (let P = priv_num_of_positive_regressors m; segments = nat (regression_segments m) in
      if flat_multiplier m then Inr (ones P segments)
      else
        case (priv_regression_knots_idx m, priv_positive_regressor_matrix m) of
          (Some knots_idx, Some a) \<Rightarrow>
            then_e (local_volume a knots_idx (num_of_observations tm) P segments) (\<lambda>local_val.
              let global_med = map (\<lambda>r. mean_nan (abs_column a r)) [0..<P]
              in Inr (reset_nan_rows (flag_multiplier local_val global_med)))
        | _ \<Rightarrow> Inl TypeError)"

text \<open>
  Lines 585-607: the multiplier of the regular regressors. Here the loop and the flagging
  stand after the \<open>if self.flat_multiplier\<close>, not in its \<open>else\<close> branch, and both
  branches of the \<open>if\<close> bind a matrix of ones.
\<close>

definition regular_multiplier :: "ktr \<Rightarrow> training_meta \<Rightarrow> error + fmatrix" where
  "regular_multiplier m tm =
     (let R = priv_num_of_regular_regressors m; segments = nat (regression_segments m) in
      case (priv_regression_knots_idx m, priv_regular_regressor_matrix m) of
        (Some knots_idx, Some a) \<Rightarrow>
          then_e (local_volume a knots_idx (num_of_observations tm) R segments) (\<lambda>local_val.
            let global_med = map (\<lambda>r. median_nan (abs_column a r)) [0..<R]
            in Inr (reset_nan_rows (flag_multiplier local_val global_med)))
      | _ \<Rightarrow> Inl TypeError)"

text \<open>\<open>multiplier * np.expand_dims(knot_scale, -1)\<close>, floored at \<open>1e-4\<close>.\<close>

definition scale_rows :: "fmatrix \<Rightarrow> vec \<Rightarrow> fmatrix" where
  "scale_rows multiplier knot_scale =
     map (\<lambda>r. map (map_option (\<lambda>x. max (x * (knot_scale ! r)) (1 / 10000))) (multiplier ! r))
         [0..<length multiplier]"

definition set_knots_scale_matrix :: "ktr \<Rightarrow> data_frame \<Rightarrow> training_meta \<Rightarrow> error + ktr" where
  "set_knots_scale_matrix m0 df tm =
     then_e (if priv_num_of_positive_regressors m0 > 0 then
               then_e (positive_multiplier m0 tm) (\<lambda>multiplier.
                 Inr (m0\<lparr>priv_positive_regressor_knot_scale_2d :=
                            Some (scale_rows multiplier (priv_positive_regressor_knot_scale m0)),
                          priv_positive_regressor_init_knot_scale :=
                            map (\<lambda>x. max x (1 / 10000))
                                (priv_positive_regressor_init_knot_scale m0)\<rparr>))
             else Inr m0) (\<lambda>m.
       if priv_num_of_regular_regressors m > 0 then
         then_e (regular_multiplier m tm) (\<lambda>multiplier.
           Inr (m\<lparr>priv_regular_regressor_knot_scale_2d :=
                     Some (scale_rows multiplier (priv_regular_regressor_knot_scale m)),
                   priv_regular_regressor_init_knot_scale :=
                     map (\<lambda>x. max x (1 / 10000))
                         (priv_regular_regressor_init_knot_scale m)\<rparr>))
       else Inr m)"

subsection \<open>The coefficient prior filter: \<open>_filter_coef_prior\<close>\<close>

text \<open>Elementwise operations with numpy's broadcasting, on rows and on matrices.\<close>

definition vec_bc :: "(real \<Rightarrow> real \<Rightarrow> real) \<Rightarrow> vec \<Rightarrow> vec \<Rightarrow> error + vec" where
  "vec_bc f u v =
     (if length u = length v then Inr (map2 f u v)
      else if length u = 1 then Inr (map (f (hd u)) v)
      else if length v = 1 then Inr (map (\<lambda>x. f x (hd v)) u)
      else Inl ValueError)"

definition mat_bc :: "(real \<Rightarrow> real \<Rightarrow> real) \<Rightarrow> matrix \<Rightarrow> matrix \<Rightarrow> error + matrix" where
  "mat_bc f a b =
     (if length a = length b then map_e (\<lambda>(u, v). vec_bc f u v) (zip a b)
      else if length a = 1 then map_e (vec_bc f (hd a)) b
      else if length b = 1 then map_e (\<lambda>u. vec_bc f u (hd b)) a
      else Inl ValueError)"

text \<open>Broadcasting a two-dimensional array to a shape, as \<open>np.full\<close> does with its fill.\<close>

definition row_to :: "vec \<Rightarrow> nat \<Rightarrow> error + vec" where
  "row_to r c =
     (if length r = c then Inr r
      else if length r = 1 then Inr (replicate c (hd r))
      else Inl ValueError)"

definition broadcast_to :: "matrix \<Rightarrow> nat \<Rightarrow> nat \<Rightarrow> error + matrix" where
  "broadcast_to a w c =
     (if length a = w then map_e (\<lambda>r. row_to r c) a
      else if length a = 1 then then_e (row_to (hd a) c) (\<lambda>r. Inr (replicate w r))
      else Inl ValueError)"

fun np_full :: "nat \<Rightarrow> nat \<Rightarrow> prior_val \<Rightarrow> error + prior_val" where
  "np_full w c (Given v) = then_e (broadcast_to [v] w c) (\<lambda>a. Inr (Full a))"
| "np_full w c (Full b) = then_e (broadcast_to b w c) (\<lambda>a. Inr (Full a))"

text \<open>
  Equality of two prior dictionaries, as \<open>list.remove\<close> tests it. Two lists are equal
  when their entries are. As soon as one side is an array, \<open>==\<close> is numpy's: the
  elementwise comparison of the two operands after broadcasting (a list of \<open>c\<close> numbers
  is an array of shape \<open>(c,)\<close>), and the truth value of the resulting array is asked
  for, which is that of its entry when it has one entry and \<open>ValueError\<close> when it has
  several. Shapes that do not broadcast and an array without entries raise \<open>ValueError\<close>
  too, as in numpy 2.2 (a shape mismatch before numpy 1.25, and an empty array before
  numpy 2.2, gave \<open>False\<close> with a deprecation warning).
\<close>

definition array_equal_truth :: "matrix \<Rightarrow> matrix \<Rightarrow> error + bool" where
  "array_equal_truth a b =
     then_e (mat_bc (\<lambda>x y. if x = y then 1 else 0) a b) (\<lambda>c.
       case concat c of
         [x] \<Rightarrow> Inr (x = 1)
       | _ \<Rightarrow> Inl ValueError)"

fun values_equal :: "prior_val \<Rightarrow> prior_val \<Rightarrow> error + bool" where
  "values_equal (Given u) (Given v) = Inr (u = v)"
| "values_equal (Given u) (Full b) = array_equal_truth [u] b"
| "values_equal (Full a) (Given v) = array_equal_truth a [v]"
| "values_equal (Full a) (Full b) = array_equal_truth a b"

fun key_equal :: "prior_key \<Rightarrow> coef_prior \<Rightarrow> coef_prior \<Rightarrow> error + bool" where
  "key_equal NAME a b = Inr (prior_name a = prior_name b)"
| "key_equal PRIOR_START_TP_IDX a b = Inr (prior_start_tp_idx a = prior_start_tp_idx b)"
| "key_equal PRIOR_END_TP_IDX a b = Inr (prior_end_tp_idx a = prior_end_tp_idx b)"
| "key_equal PRIOR_MEAN a b = values_equal (prior_mean a) (prior_mean b)"
| "key_equal PRIOR_SD a b = values_equal (prior_sd a) (prior_sd b)"
| "key_equal PRIOR_REGRESSOR_COL a b = Inr (prior_regressor_col a = prior_regressor_col b)"
| "key_equal PRIOR_REGRESSOR_COL_IDX a b =
     Inr (prior_regressor_col_idx a = prior_regressor_col_idx b)"

text \<open>
  \<open>a == b\<close> on dictionaries: different sizes are unequal; otherwise the keys of \<open>a\<close>
  are visited in the insertion order of \<open>a\<close>, a key missing in \<open>b\<close> or a pair of
  unequal values ends the comparison with \<open>False\<close>, and an exception raised by the
  comparison of two values is passed on.
\<close>

fun keys_equal :: "prior_key list \<Rightarrow> coef_prior \<Rightarrow> coef_prior \<Rightarrow> error + bool" where
  "keys_equal [] a b = Inr True"
| "keys_equal (k # ks) a b =
     (if k \<in> set (prior_keys b) then
        then_e (key_equal k a b) (\<lambda>eq. if eq then keys_equal ks a b else Inr False)
      else Inr False)"

definition dict_equal :: "coef_prior \<Rightarrow> coef_prior \<Rightarrow> error + bool" where
  "dict_equal a b =
     (if length (prior_keys a) \<noteq> length (prior_keys b) then Inr False
      else keys_equal (prior_keys a) a b)"

text \<open>
  \<open>live.remove(value)\<close>, where the object \<open>value\<close> itself stands at position \<open>pos\<close> of
  the list: the entries are visited from the front, an entry is taken out when it is the
  object \<open>value\<close> or compares equal to it, and the comparison may raise. The dictionaries
  of the list are taken to be distinct objects.
\<close>

fun list_remove :: "coef_prior list \<Rightarrow> nat \<Rightarrow> coef_prior \<Rightarrow> error + coef_prior list" where
  "list_remove [] pos val = Inl ValueError"
| "list_remove (item # items) pos val =
     (if pos = 0 then Inr items
      else then_e (dict_equal item val) (\<lambda>eq.
             if eq then Inr items
             else then_e (list_remove items (pos - 1) val) (\<lambda>r. Inr (item # r))))"

text \<open>
  The loop runs over a copy of the list. \<open>i\<close> is the position of \<open>test_dict\<close> in the
  live list. A prior with a non-empty window is updated in place; any other prior is
  taken out by \<open>list.remove\<close>.
\<close>

fun filter_loop :: "nat \<Rightarrow> coef_prior list \<Rightarrow> nat \<Rightarrow> coef_prior list \<Rightarrow> error + coef_prior list" where
  "filter_loop rows [] i live = Inr live"
| "filter_loop rows (test_dict # rest) i live =
     (let end_tp_idx = min (prior_end_tp_idx test_dict) (int rows);
          start_tp_idx = min (prior_start_tp_idx test_dict) (int rows)
      in if start_tp_idx < end_tp_idx then
           then_e (np_full (nat (end_tp_idx - start_tp_idx)) (length (prior_regressor_col test_dict))
                     (prior_mean test_dict)) (\<lambda>mean.
           then_e (np_full (nat (end_tp_idx - start_tp_idx)) (length (prior_regressor_col test_dict))
                     (prior_sd test_dict)) (\<lambda>sd.
             filter_loop rows rest (Suc i)
               (live[i := test_dict\<lparr>prior_end_tp_idx := end_tp_idx,
                                     prior_start_tp_idx := start_tp_idx,
                                     prior_mean := mean,
                                     prior_sd := sd\<rparr>])))
         else then_e (list_remove live i test_dict) (\<lambda>live'. filter_loop rows rest i live'))"

definition filter_coef_prior :: "ktr \<Rightarrow> data_frame \<Rightarrow> error + ktr" where
  "filter_coef_prior m df =
     (if priv_coef_prior_list m \<noteq> [] \<and> length (priv_regressor_col m) > 0 then
        then_e (filter_loop (length (df_dates df)) (priv_coef_prior_list m) 0
                  (priv_coef_prior_list m))
          (\<lambda>live. Inr (m\<lparr>priv_coef_prior_list := live\<rparr>))
      else Inr m)"

subsection \<open>Level knots from the bootstrap model: \<open>_set_levs_and_seas\<close>\<close>

text \<open>
  The level knots come from a fit of the simpler model \<open>KTRLiteModel\<close>, which is outside
  this file: its level knot dates and values are taken as given. The method keeps the
  knots inside the frame's date range and turns their dates into time positions. The
  attribute \<open>_seasonality\<close> is \<open>None\<close> throughout the class, so the seasonal branch of the
  method is never entered.
\<close>

record bootstrap =
  boot_level_knot_dates :: "date list"
  boot_level_knots :: vec

fun trim_level_knots :: "data_frame \<Rightarrow> nat \<Rightarrow> date list \<Rightarrow> vec \<Rightarrow> error + (date \<times> real) list" where
  "trim_level_knots df i [] knots = Inr []"
| "trim_level_knots df i (x # xs) knots =
     (if dates_in_range df [x] \<noteq> [] then
        then_e (nth_e knots i) (\<lambda>k.
        then_e (trim_level_knots df (Suc i) xs knots) (\<lambda>r. Inr ((x, k) # r)))
      else trim_level_knots df (Suc i) xs knots)"

definition set_levs_and_seas ::
    "ktr \<Rightarrow> bootstrap \<Rightarrow> data_frame \<Rightarrow> training_meta \<Rightarrow> error + ktr" where
  "set_levs_and_seas m boot df tm =
     then_e (trim_level_knots df 0 (boot_level_knot_dates boot) (boot_level_knots boot)) (\<lambda>kept.
       if length kept > 0 \<and> length (boot_level_knot_dates boot) > 0 then
         Inr (m\<lparr>knots_tp_level :=
                  Some (map (\<lambda>(x, k). (real_of_int (x - training_start tm) + 1) /
                                       (real_of_int (training_end tm - training_start tm) + 1))
                            kept)\<rparr>)
       else Inl ModelException)"

definition set_dynamic_attributes ::
    "ktr \<Rightarrow> bootstrap \<Rightarrow> data_frame \<Rightarrow> training_meta \<Rightarrow> error + ktr" where
  "set_dynamic_attributes m boot df tm =
     then_e (set_regressor_matrix m df tm) (\<lambda>m1.
     then_e (set_coefficients_kernel_matrix m1 df tm) (\<lambda>m2.
     then_e (set_knots_scale_matrix m2 df tm) (\<lambda>m3.
     then_e (set_levs_and_seas m3 boot df tm) (\<lambda>m4.
       filter_coef_prior m4 df))))"

subsection \<open>Concatenating coefficient matrices: \<open>_concat_regression_coefs\<close>\<close>

datatype tensor = T1 vec | T2 matrix

fun as_2d :: "tensor \<Rightarrow> matrix" where
  "as_2d (T1 v) = [v]"
| "as_2d (T2 a) = a"

definition concat_regression_coefs :: "tensor option \<Rightarrow> tensor option \<Rightarrow> error + tensor option" where
  "concat_regression_coefs pr_beta rr_beta =
     (case (pr_beta, rr_beta) of
        (Some p, Some r) \<Rightarrow>
          (let pr = as_2d p; rr = as_2d r
           in if length rr = length pr then Inr (Some (T2 (map2 (@) rr pr)))
              else Inl RuntimeError)
      | (Some p, None) \<Rightarrow> Inr (Some p)
      | (None, Some r) \<Rightarrow> Inr (Some r)
      | (None, None) \<Rightarrow> Inr None)"

subsection \<open>Time positions of a prediction: \<open>_generate_tp\<close>\<close>

text \<open>
  \<open>pd.Index(date_array).get_loc(d)\<close> gives the position of \<open>d\<close> when it occurs once and
  raises \<open>KeyError\<close> when it does not occur. For a repeated date it gives a slice or a
  mask, on which the arithmetic that follows fails.
\<close>

definition get_loc :: "date list \<Rightarrow> date \<Rightarrow> error + nat" where
  "get_loc ds d =
     (case filter (\<lambda>i. ds ! i = d) [0..<length ds] of
        [] \<Rightarrow> Inl KeyError
      | [i] \<Rightarrow> Inr i
      | _ \<Rightarrow> Inl TypeError)"

text \<open>
  The start offset, computed alike in \<open>_generate_tp\<close> (lines 629-632), in \<open>predict\<close>
  (lines 861-865) and in \<open>_get_regression_coefs_matrix\<close> (lines 990-996), and
  \<open>np.arange(start + 1, start + output_len + 1) / num_of_observations\<close>.
\<close>

definition start_index :: "training_meta \<Rightarrow> date \<Rightarrow> error + nat" where
  "start_index tm prediction_start =
     (if prediction_start > training_end tm then Inr (num_of_observations tm)
      else get_loc (date_array tm) prediction_start)"

definition new_time_points :: "nat \<Rightarrow> nat \<Rightarrow> nat \<Rightarrow> vec" where
  "new_time_points start output_len N =
     map (\<lambda>k. real (start + 1 + k) / real N) [0..<output_len]"

definition generate_tp :: "training_meta \<Rightarrow> date list \<Rightarrow> error + vec" where
  "generate_tp tm prediction_date_array =
     (case prediction_date_array of
        [] \<Rightarrow> Inl IndexError
      | prediction_start # _ \<Rightarrow>
          then_e (start_index tm prediction_start) (\<lambda>start.
            Inr (new_time_points start (length prediction_date_array) (num_of_observations tm))))"

subsection \<open>Regression coefficient curves: \<open>_get_regression_coefs_matrix\<close>\<close>

text \<open>
  The sample bundle of the estimator: level knots of shape samples by knots, the
  observation scale per sample, and the regression knots of shape samples by regressors by
  knots (absent for a model without regressors). \<open>first_value_rows\<close> is the leading
  dimension of the first value of the mapping, which \<open>predict\<close> takes as the number of
  samples.
\<close>

record posterior =
  first_value_rows :: nat
  lev_knot :: matrix
  obs_scale :: vec
  coef_knot :: "matrix list option"

definition dot :: "vec \<Rightarrow> vec \<Rightarrow> real" where
  "dot u v = sum_list (map2 (*) u v)"

text \<open>\<open>np.matmul(a, b.transpose((1, 0)))\<close> for \<open>a\<close> of shape \<open>(n, k)\<close> and \<open>b\<close> of shape \<open>(t, k)\<close>.\<close>

definition matmul_t :: "matrix \<Rightarrow> matrix \<Rightarrow> error + matrix" where
  "matmul_t a b =
     (if list_all (\<lambda>r. list_all (\<lambda>q. length r = length q) b) a
      then Inr (map (\<lambda>r. map (\<lambda>q. dot r q) b) a)
      else Inl ValueError)"

text \<open>
  \<open>np.matmul(coef_knots, kernel.transpose((1, 0))).transpose((0, 2, 1))\<close>: for every sample
  the curve of shape time by regressors.
\<close>

definition coef_curves :: "matrix list \<Rightarrow> matrix \<Rightarrow> error + matrix list" where
  "coef_curves coef_knots kernel_coefficients =
     map_e (\<lambda>c. matmul_t kernel_coefficients c) coef_knots"

text \<open>
  Modelled from the spec: \<open>is_ordered_datetime\<close> of \<open>orbit/utils/general.py\<close>, which is not
  among the sources; the date index must be ordered and must not repeat.
\<close>

fun is_ordered_datetime :: "date list \<Rightarrow> bool" where
  "is_ordered_datetime [] = True"
| "is_ordered_datetime [x] = True"
| "is_ordered_datetime (x # y # ys) = (x < y \<and> is_ordered_datetime (y # ys))"

definition get_regression_coefs_matrix ::
    "ktr \<Rightarrow> training_meta \<Rightarrow> posterior \<Rightarrow> date list option \<Rightarrow> error + matrix list option" where
  "get_regression_coefs_matrix m tm posteriors date_arr =
     (if priv_num_of_regular_regressors m + priv_num_of_positive_regressors m = 0 then Inr None
      else
        case date_arr of
          None \<Rightarrow>
            (case (coef_knot posteriors, priv_kernel_coefficients m) of
               (Some coef_knots, Some kernel_coefficients) \<Rightarrow>
                 then_e (coef_curves coef_knots kernel_coefficients) (\<lambda>regressor_betas.
                   Inr (Some regressor_betas))
             | _ \<Rightarrow> Inl TypeError)
        | Some ds \<Rightarrow>
            if \<not> is_ordered_datetime ds then Inl IllegalArgument
            else
              case ds of
                [] \<Rightarrow> Inl IndexError
              | prediction_start # _ \<Rightarrow>
                  if prediction_start < training_start tm then Inl ModelException
                  else
                    then_e (start_index tm prediction_start) (\<lambda>start.
                      let new_tp = new_time_points start (length ds) (num_of_observations tm) in
                      case rho_coefficients m of
                        None \<Rightarrow> Inl AttributeError
                      | Some rho \<Rightarrow>
                          (case (priv_knots_tp_coefficients m, coef_knot posteriors) of
                             (Some knots_tp, Some coef_knots) \<Rightarrow>
                               then_e (coef_curves coef_knots (gauss_kernel new_tp knots_tp rho))
                                 (\<lambda>regressor_betas. Inr (Some regressor_betas))
                           | _ \<Rightarrow> Inl TypeError)))"

subsection \<open>Prediction: \<open>predict\<close>\<close>

record prediction_meta =
  df_length :: nat
  prediction_start :: date
  pm_date_array :: "date list"

text \<open>
  What \<open>predict\<close> takes from outside the file. The random draws are an explicit source:
  \<open>laplace scale i k\<close> is entry \<open>(i, k)\<close> of \<open>np.random.laplace(0, scale, size)\<close>, and
  \<open>nct_rvs df scale i j\<close> is entry \<open>(i, j)\<close> of \<open>nct.rvs(df, nc=0, loc=0, scale, size)\<close>
  at the scale of row \<open>i\<close>. \<open>to_double x\<close> is the double nearest to the real \<open>x\<close>, the
  rounding of IEEE 754 arithmetic; it leaves a double as it is.

  Modelled from the spec: \<open>sandwich_kernel\<close> of \<open>orbit/utils/kernels.py\<close>, which is not
  among the sources. The spec gives its result as an array with one row per time position
  and one column per knot; \<open>sandwich_weight knots t j\<close> is the weight of knot \<open>j\<close> at
  time position \<open>t\<close>.
\<close>

record externals =
  sandwich_weight :: "vec \<Rightarrow> real \<Rightarrow> nat \<Rightarrow> real"
  laplace :: "real \<Rightarrow> nat \<Rightarrow> nat \<Rightarrow> real"
  nct_rvs :: "real \<Rightarrow> real \<Rightarrow> nat \<Rightarrow> nat \<Rightarrow> real"
  to_double :: "real \<Rightarrow> real"

definition sandwich_kernel :: "externals \<Rightarrow> vec \<Rightarrow> vec \<Rightarrow> matrix" where
  "sandwich_kernel ext x x_i =
     map (\<lambda>t. map (\<lambda>j. sandwich_weight ext x_i t j) [0..<length x_i]) x"

text \<open>
  \<open>np.arange(start, stop, step)\<close> on doubles. The length is the ceiling of
  \<open>(stop - start) / step\<close>, computed in doubles; a zero step makes the quotient infinite
  (\<open>OverflowError\<close>) or, for \<open>stop = start\<close>, not a number (\<open>ValueError\<close>). The first
  entry is \<open>start\<close>, the second \<open>start + step\<close>, and entry \<open>k\<close> from the third on is
  \<open>start + k * delta\<close> with \<open>delta\<close> the difference of the first two entries.
\<close>

definition arange_double :: "externals \<Rightarrow> real \<Rightarrow> real \<Rightarrow> real \<Rightarrow> error + vec" where
  "arange_double ext start stop step =
     (if step = 0 then (if stop = start then Inl ValueError else Inl OverflowError)
      else
        (let n = nat \<lceil>to_double ext (to_double ext (stop - start) / step)\<rceil>;
             next = to_double ext (start + step);
             delta = to_double ext (next - start)
         in Inr (map (\<lambda>k. if k = 0 then start
                          else if k = 1 then next
                          else to_double ext (start + to_double ext (real k * delta)))
                     [0..<n])))"

fun cumsum_from :: "real \<Rightarrow> vec \<Rightarrow> vec" where
  "cumsum_from acc [] = []"
| "cumsum_from acc (x # xs) = (acc + x) # cumsum_from (acc + x) xs"

definition cumsum :: "vec \<Rightarrow> vec" where
  "cumsum xs = cumsum_from 0 xs"

text \<open>
  Lines 868-889: the level knots behind the trend, as the pair of their time positions and
  their values per sample. The width of a knot interval, the first new knot position and
  the test against the horizon are computed on the doubles that the arrays hold: an entry
  of \<open>knots_tp_level\<close> or of \<open>new_tp\<close> is the double nearest to the quotient that the
  model carries for it.
\<close>

definition level_knots ::
    "ktr \<Rightarrow> externals \<Rightarrow> posterior \<Rightarrow> vec \<Rightarrow> bool \<Rightarrow> error + (vec \<times> matrix)" where
  "level_knots m ext model new_tp include_error =
     (case knots_tp_level m of
        None \<Rightarrow> Inl TypeError
      | Some tp_level \<Rightarrow>
          if include_error then
            (let lev_knot_in = lev_knot model in
             if length tp_level < 2 \<or> new_tp = [] then Inl IndexError
             else
               (let last_knot = to_double ext (last tp_level);
                    lev_knot_width =
                      to_double ext (last_knot - to_double ext (tp_level ! (length tp_level - 2)));
                    first_new_knot = to_double ext (last_knot + lev_knot_width);
                    horizon = to_double ext (last new_tp)
                in
                if horizon \<ge> first_new_knot then
                  then_e (arange_double ext first_new_knot horizon lev_knot_width)
                    (\<lambda>knots_tp_level_out.
                    if list_ex (\<lambda>row. row = []) lev_knot_in then Inl IndexError
                    else
                      (let lev_knot_out =
                             map (\<lambda>i. tl (cumsum (last (lev_knot_in ! i) #
                                     map (\<lambda>k. laplace ext (level_knot_scale m) i k)
                                         [0..<length knots_tp_level_out])))
                                 [0..<length lev_knot_in]
                       in Inr (tp_level @ knots_tp_level_out, map2 (@) lev_knot_in lev_knot_out)))
                else Inr (tp_level, lev_knot_in)))
          else Inr (tp_level, lev_knot model))"

text \<open>\<open>np.sum(regressor_betas * regressor_matrix, axis=-1)\<close>.\<close>

definition weighted_sum :: "matrix list \<Rightarrow> matrix \<Rightarrow> error + matrix" where
  "weighted_sum regressor_betas regressor_matrix =
     map_e (\<lambda>b. then_e (mat_bc (*) b regressor_matrix) (\<lambda>prod. Inr (map sum_list prod)))
           regressor_betas"

text \<open>
  \<open>nct.rvs(dof, nc=0, loc=0, scale=obs_scale, size=(num_sample, len(new_tp)))\<close> with
  \<open>obs_scale\<close> reshaped to one column: one draw per sample and time step.
\<close>

definition draw_noise :: "ktr \<Rightarrow> externals \<Rightarrow> vec \<Rightarrow> nat \<Rightarrow> nat \<Rightarrow> error + matrix" where
  "draw_noise m ext scale num_sample steps =
     (if length scale = num_sample then
        Inr (map (\<lambda>i. map (\<lambda>j. nct_rvs ext (degree_of_freedom m) (scale ! i) i j) [0..<steps])
                 [0..<num_sample])
      else if length scale = 1 then
        Inr (map (\<lambda>i. map (\<lambda>j. nct_rvs ext (degree_of_freedom m) (hd scale) i j) [0..<steps])
                 [0..<num_sample])
      else Inl ValueError)"

definition zeros_like :: "matrix \<Rightarrow> matrix" where
  "zeros_like a = map (map (\<lambda>_. 0)) a"

text \<open>
  Lines 893-904: the seasonal term, an array of one row. Reading the attribute raises
  \<open>AttributeError\<close> when the object does not have it.
\<close>

definition seasonal_input :: "ktr \<Rightarrow> data_frame \<Rightarrow> nat \<Rightarrow> error + matrix" where
  "seasonal_input m df output_len =
     (case priv_seasonal_knots_input m of
        None \<Rightarrow> Inl AttributeError
      | Some None \<Rightarrow> Inr [replicate output_len 0]
      | Some (Some curve) \<Rightarrow> Inr [map curve [0..<length (df_dates df)]])"

text \<open>Lines 907-916: the regression term.\<close>

definition regression_term ::
    "ktr \<Rightarrow> posterior \<Rightarrow> data_frame \<Rightarrow> training_meta \<Rightarrow> prediction_meta \<Rightarrow> matrix
      \<Rightarrow> error + matrix" where
  "regression_term m posterior_estimates df tm pm trend =
     (if priv_num_of_regressors m > 0 then
        then_e (get_regression_coefs_matrix m tm posterior_estimates
                  (Some (pm_date_array pm))) (\<lambda>regressor_betas.
          case regressor_betas of
            None \<Rightarrow> Inl TypeError
          | Some betas \<Rightarrow> weighted_sum betas (filter_values df (priv_regressor_col m)))
      else Inr (zeros_like trend))"

text \<open>Lines 918-923: the total, with the noise when it is asked for.\<close>

definition prediction_array ::
    "ktr \<Rightarrow> externals \<Rightarrow> posterior \<Rightarrow> nat \<Rightarrow> bool \<Rightarrow> matrix \<Rightarrow> matrix \<Rightarrow> matrix
      \<Rightarrow> error + matrix" where
  "prediction_array m ext posterior_estimates steps include_error trend seas regression =
     (if include_error then
        then_e (draw_noise m ext (obs_scale posterior_estimates)
                  (first_value_rows posterior_estimates) steps) (\<lambda>epsilon.
        then_e (mat_bc (+) trend seas) (\<lambda>ts.
        then_e (mat_bc (+) ts regression) (\<lambda>tsr. mat_bc (+) tsr epsilon)))
      else
        then_e (mat_bc (+) trend seas) (\<lambda>ts. mat_bc (+) ts regression))"

definition predict ::
    "ktr \<Rightarrow> externals \<Rightarrow> posterior \<Rightarrow> data_frame \<Rightarrow> training_meta \<Rightarrow> prediction_meta \<Rightarrow> bool
      \<Rightarrow> error + (string \<times> matrix) list" where
  "predict m ext posterior_estimates df tm pm include_error =
     (let output_len = df_length pm;
          N = num_of_observations tm
      in
      then_e (start_index tm (prediction_start pm)) (\<lambda>start.
        let new_tp = new_time_points start output_len N in
        then_e (level_knots m ext posterior_estimates new_tp include_error)
          (\<lambda>(new_knots_tp_level, lev_knot_used).
        let kernel_level = sandwich_kernel ext new_tp new_knots_tp_level in
        then_e (seasonal_input m df output_len) (\<lambda>seas.
        then_e (matmul_t lev_knot_used kernel_level) (\<lambda>trend.
        then_e (regression_term m posterior_estimates df tm pm trend) (\<lambda>regression.
        then_e (prediction_array m ext posterior_estimates (length new_tp) include_error
                  trend seas regression) (\<lambda>pred_array.
          Inr [(''prediction'', pred_array),
               (''trend'', trend),
               (''seasonality_input'', seas),
               (''regression'', regression)])))))))"

subsection \<open>Example inputs\<close>

text \<open>The constructor's defaults (no regressors), and small frames to run the code on.\<close>

definition default_args :: ktr_args where
  "default_args =
     \<lparr> arg_level_knot_scale = 1 / 10,
       arg_regressor_col = None,
       arg_regressor_sign = None,
       arg_regressor_init_knot_loc = None,
       arg_regressor_init_knot_scale = None,
       arg_regressor_knot_scale = None,
       arg_regression_segments = 5,
       arg_regression_knot_distance = None,
       arg_regression_knot_dates = None,
       arg_regression_rho = 15 / 100,
       arg_degree_of_freedom = 30,
       arg_coef_prior_list = None,
       arg_flat_multiplier = True,
       arg_inherited_rho_coefficients = None \<rparr>"

definition frame100 :: data_frame where
  "frame100 = \<lparr> df_dates = map int [0..<100], df_columns = [(''x'', replicate 100 1)] \<rparr>"

definition meta100 :: training_meta where
  "meta100 = \<lparr> num_of_observations = 100, date_array = map int [0..<100],
                 training_start = 0, training_end = 99 \<rparr>"

definition frame4 :: data_frame where
  "frame4 = \<lparr> df_dates = [0, 1, 2, 3], df_columns = [(''x'', [10, 10, 10, 0])] \<rparr>"

definition meta4 :: training_meta where
  "meta4 = \<lparr> num_of_observations = 4, date_array = [0, 1, 2, 3],
               training_start = 0, training_end = 3 \<rparr>"

text \<open>Construction followed by \<open>set_dynamic_attributes\<close>.\<close>

definition fitted ::
    "ktr_args \<Rightarrow> bootstrap \<Rightarrow> data_frame \<Rightarrow> training_meta \<Rightarrow> error + ktr" where
  "fitted a boot df tm =
     then_e (KTRModel_init a) (\<lambda>m. set_dynamic_attributes m boot df tm)"

text \<open>Construction followed by the first two steps of \<open>set_dynamic_attributes\<close>.\<close>

definition fit_knots :: "ktr_args \<Rightarrow> data_frame \<Rightarrow> training_meta \<Rightarrow> error + ktr" where
  "fit_knots a df tm =
     then_e (KTRModel_init a) (\<lambda>m.
     then_e (set_regressor_matrix m df tm) (\<lambda>m1.
       set_coefficients_kernel_matrix m1 df tm))"

definition boot2 :: bootstrap where
  "boot2 = \<lparr> boot_level_knot_dates = [0, 1], boot_level_knots = [5, 6] \<rparr>"


definition post1 :: posterior where
  "post1 = \<lparr> first_value_rows = 1, lev_knot = [[5, 6]], obs_scale = [2], coef_knot = None \<rparr>"

definition pm4 :: prediction_meta where
  "pm4 = \<lparr> df_length = 4, prediction_start = 0, pm_date_array = [0, 1, 2, 3] \<rparr>"

text \<open>
  The sign tags in effect after \<open>_set_default_args\<close>: the declared ones, and \<open>'='\<close> for
  every column when none are declared.
\<close>

definition effective_signs :: "ktr_args \<Rightarrow> string list" where
  "effective_signs a =
     (case arg_regressor_sign a of
        Some signs \<Rightarrow> signs
      | None \<Rightarrow>
          replicate (case arg_regressor_col a of None \<Rightarrow> 0 | Some cols \<Rightarrow> length cols)
            DEFAULT_REGRESSOR_SIGN)"





definition frame10 :: data_frame where
  "frame10 = \<lparr> df_dates = map int [0..<10], df_columns = [(''x'', replicate 10 1)] \<rparr>"

text \<open>
  A prior on the column \<open>x\<close> with its keys in the order of the class documentation, and
  the same prior written with its mean and sd first.
\<close>

definition documented_keys :: "prior_key list" where
  "documented_keys =
     [NAME, PRIOR_START_TP_IDX, PRIOR_END_TP_IDX, PRIOR_MEAN, PRIOR_SD, PRIOR_REGRESSOR_COL]"

definition window_prior :: "string \<Rightarrow> int \<Rightarrow> int \<Rightarrow> coef_prior" where
  "window_prior name start_idx end_idx =
     \<lparr> prior_keys = documented_keys,
       prior_name = name, prior_start_tp_idx = start_idx, prior_end_tp_idx = end_idx,
       prior_mean = Given [1], prior_sd = Given [1 / 2], prior_regressor_col = [''x''],
       prior_regressor_col_idx = None \<rparr>"

definition mean_first_prior :: "string \<Rightarrow> int \<Rightarrow> int \<Rightarrow> coef_prior" where
  "mean_first_prior name start_idx end_idx =
     (window_prior name start_idx end_idx)
       \<lparr>prior_keys := [PRIOR_MEAN, PRIOR_SD, NAME, PRIOR_START_TP_IDX, PRIOR_END_TP_IDX,
                       PRIOR_REGRESSOR_COL]\<rparr>"

definition post_coef :: posterior where
  "post_coef = \<lparr> first_value_rows = 1, lev_knot = [[5, 6]], obs_scale = [2],
                  coef_knot = Some [[[2]]] \<rparr>"

definition post2 :: posterior where
  "post2 = \<lparr> first_value_rows = 2, lev_knot = [[5, 6], [7, 8]], obs_scale = [2, 3],
              coef_knot = None \<rparr>"

section \<open>Properties\<close>

lemmas init_defs =
  KTRModel_init_def init_fields_def set_static_attributes_def set_default_args_def
  validate_params_len_def then_e_def set_static_regression_attributes_def file_regressor_def
  nth_e_def DEFAULT_REGRESSOR_SIGN_def DEFAULT_COEFFICIENTS_INIT_KNOT_LOC_def
  DEFAULT_COEFFICIENTS_INIT_KNOT_SCALE_def DEFAULT_COEFFICIENTS_KNOT_SCALE_def

lemmas knot_defs =
  fit_knots_def set_regressor_matrix_def filter_values_def List.map_filter_def
  set_coefficients_kernel_matrix_def place_knots_def ceil_div_def set_knots_tp_def
  round_half_def np_arange_def take_idx_def upt_conv_Cons

lemmas scale_defs =
  regular_multiplier_def positive_multiplier_def local_volume_def py_slice_def mean_nan_def
  median_nan_def lt_nan_def abs_column_def flag_multiplier_def reset_nan_rows_def ones_def
  DEFAULT_LOWER_BOUND_SCALE_MULTIPLIER_def

lemma replicate_two: "replicate 2 x = [x, x]"
  by (simp add: numeral_2_eq_2)

subsection \<open>Knot placement\<close>

text \<open>
  C1 (even-segmentation knot placement from the segment count). The claim expects, for a
  cutoff of 100 and 5 segments, the spacing 17 and the knots 8, 25, 42, 59, 76, 93. The
  helper \<open>_set_knots_tp\<close> does place these knots when it is handed the distance 17. But
  the constructor overwrites \<open>regression_segments\<close> with 0 (line 243), and
  \<open>_set_coefficients_kernel_matrix\<close> does so again (line 482) just before it computes
  \<open>number_of_knots = self.regression_segments + 1\<close>: whatever segment count the caller
  passes, the spacing is the cutoff itself, and the model with one regressor fitted on 100
  rows gets the single knot 50 at time position 51/100.
\<close>

theorem segment_count_is_ignored:
  "map_sum id (\<lambda>m. (regression_segments m, priv_regression_knots_idx m,
                     priv_knots_tp_coefficients m))
     (fit_knots (default_args\<lparr>arg_regressor_col := Some [''x''],
                              arg_regression_segments := segments\<rparr>) frame100 meta100)
   = Inr (1, Some [50], Some [51 / 100])
   \<and> set_knots_tp 17 100 = Inr [8, 25, 42, 59, 76, 93]"
  by (simp add: init_defs knot_defs default_args_def frame100_def meta100_def)

subsection \<open>Knot-scale multipliers\<close>

text \<open>
  C2 (flat-multiplier mode gives every segment the multiplier 1, for positive and for
  unconstrained regressors). For an unconstrained regressor the code adjusts the
  multiplier also in flat mode: with \<open>flat_multiplier=True\<close>, a knot distance of 2 and the
  column 10, 10, 10, 0 the knots are 1 and 3, the second segment has local mean 0, below 1%
  of the global median 10, and its multiplier is 0.01. The same column declared positive
  keeps the multipliers 1 and 1 in flat mode.
\<close>

theorem flat_multiplier_ignored_for_regular_regressors:
  "then_e (fit_knots (default_args\<lparr>arg_regressor_col := Some [''x''],
                                   arg_regression_knot_distance := Some 2\<rparr>) frame4 meta4)
     (\<lambda>m. then_e (regular_multiplier m meta4) (\<lambda>multiplier.
        Inr (flat_multiplier m, priv_regression_knots_idx m, multiplier)))
   = Inr (True, Some [1, 3], [[Some 1, Some (1 / 100)]])
   \<and> then_e (fit_knots (default_args\<lparr>arg_regressor_col := Some [''x''],
                                     arg_regressor_sign := Some [''+''],
                                     arg_regression_knot_distance := Some 2\<rparr>) frame4 meta4)
       (\<lambda>m. then_e (positive_multiplier m meta4) (\<lambda>multiplier.
          Inr (flat_multiplier m, priv_regression_knots_idx m, multiplier)))
     = Inr (True, Some [1, 3], [[Some 1, Some 1]])"
  by (simp add: init_defs knot_defs scale_defs replicate_two default_args_def frame4_def
      meta4_def)

subsection \<open>Results of the error-passing steps\<close>

lemma then_e_Inr_iff: "then_e r f = Inr y \<longleftrightarrow> (\<exists>x. r = Inr x \<and> f x = Inr y)"
  by (cases r) (simp_all add: then_e_def)

lemmas dyn_defs =
  set_dynamic_attributes_def set_regressor_matrix_def set_coefficients_kernel_matrix_def
  set_knots_scale_matrix_def set_levs_and_seas_def filter_coef_prior_def dates_in_range_def
  nth_e_def then_e_def


subsection \<open>The partition of the regressors\<close>

lemma file_regressor_Inr:
  assumes "file_regressor m i s = Inr m'"
  shows "\<exists>cols locs scales kscales.
           regressor_col m = Some cols \<and> i < length cols \<and>
           regressor_col m' = regressor_col m \<and>
           priv_regressor_init_knot_loc m' = priv_regressor_init_knot_loc m \<and>
           priv_regressor_init_knot_scale m' = priv_regressor_init_knot_scale m \<and>
           priv_regressor_knot_scale m' = priv_regressor_knot_scale m \<and>
           priv_regular_regressor_col m' =
             priv_regular_regressor_col m @ (if s = ''+'' then [] else [cols ! i]) \<and>
           priv_positive_regressor_col m' =
             priv_positive_regressor_col m @ (if s = ''+'' then [cols ! i] else [])"
  using assms
  by (auto simp: file_regressor_def then_e_Inr_iff nth_e_def split: option.splits if_splits)

lemma file_regressors_cols:
  assumes "file_regressors m i signs = Inr m'" and "regressor_col m = Some cols"
  shows "priv_regular_regressor_col m' =
           priv_regular_regressor_col m @
             map fst (filter (\<lambda>(c, s). s \<noteq> ''+'') (zip (drop i cols) signs)) \<and>
         priv_positive_regressor_col m' =
           priv_positive_regressor_col m @
             map fst (filter (\<lambda>(c, s). s = ''+'') (zip (drop i cols) signs))"
  using assms
proof (induction signs arbitrary: m i)
  case Nil
  then show ?case by simp
next
  case (Cons s signs)
  from Cons.prems(1) obtain m1 where
    m1: "file_regressor m i s = Inr m1" and rest: "file_regressors m1 (Suc i) signs = Inr m'"
    by (auto simp: then_e_Inr_iff)
  from file_regressor_Inr[OF m1] Cons.prems(2) have
    i: "i < length cols" and c1: "regressor_col m1 = Some cols" and
    r1: "priv_regular_regressor_col m1 =
           priv_regular_regressor_col m @ (if s = ''+'' then [] else [cols ! i])" and
    p1: "priv_positive_regressor_col m1 =
           priv_positive_regressor_col m @ (if s = ''+'' then [cols ! i] else [])"
    by auto
  have d: "drop i cols = cols ! i # drop (Suc i) cols"
    using i by (simp add: Cons_nth_drop_Suc)
  from Cons.IH[OF rest c1] show ?case
    by (simp add: r1 p1 d)
qed

lemma set_coef_prior_idx_cols:
  "set_coef_prior_idx m = Inr m' \<Longrightarrow>
     priv_regular_regressor_col m' = priv_regular_regressor_col m \<and>
     priv_positive_regressor_col m' = priv_positive_regressor_col m \<and>
     priv_regressor_col m' = priv_regressor_col m \<and>
     priv_num_of_regressors m' = priv_num_of_regressors m"
  by (auto simp: set_coef_prior_idx_def then_e_Inr_iff split: if_splits)

lemma set_default_args_cols:
  assumes "set_default_args (init_fields a) = Inr m1" and "arg_regressor_col a = Some cols"
  shows "regressor_col m1 = Some cols \<and> priv_num_of_regressors m1 = length cols \<and>
         priv_regressor_sign m1 =
           Some (case arg_regressor_sign a of Some signs \<Rightarrow> signs
                 | None \<Rightarrow> replicate (length cols) DEFAULT_REGRESSOR_SIGN) \<and>
         priv_regular_regressor_col m1 = [] \<and> priv_positive_regressor_col m1 = [] \<and>
         priv_regressor_col m1 = []"
  using assms
  by (auto simp: set_default_args_def init_fields_def then_e_Inr_iff Let_def
           split: option.splits)

lemma static_cols:
  assumes "set_static_regression_attributes m1 = Inr m2"
    and "regressor_col m1 = Some cols" and "priv_num_of_regressors m1 = length cols"
    and "priv_regressor_sign m1 = Some signs"
    and "priv_regular_regressor_col m1 = []" and "priv_positive_regressor_col m1 = []"
    and "priv_regressor_col m1 = []"
  shows "priv_regular_regressor_col m2 =
           map fst (filter (\<lambda>(c, s). s \<noteq> ''+'') (zip cols signs)) \<and>
         priv_positive_regressor_col m2 =
           map fst (filter (\<lambda>(c, s). s = ''+'') (zip cols signs)) \<and>
         priv_regressor_col m2 = priv_regular_regressor_col m2 @ priv_positive_regressor_col m2"
proof (cases "priv_num_of_regressors m1 = 0")
  case True
  with assms show ?thesis by (simp add: set_static_regression_attributes_def)
next
  case False
  with assms(1,4) obtain m' where
    f: "file_regressors m1 0 signs = Inr m'" and
    m2: "m2 = m'\<lparr>priv_regressor_col :=
                    priv_regular_regressor_col m' @ priv_positive_regressor_col m'\<rparr>"
    by (auto simp: set_static_regression_attributes_def then_e_Inr_iff)
  from file_regressors_cols[OF f assms(2)] assms(5,6) show ?thesis
    by (simp add: m2)
qed

lemma init_cols:
  assumes "KTRModel_init a = Inr m" and "arg_regressor_col a = Some cols"
  shows "priv_regular_regressor_col m =
           map fst (filter (\<lambda>(c, s). s \<noteq> ''+'') (zip cols (effective_signs a))) \<and>
         priv_positive_regressor_col m =
           map fst (filter (\<lambda>(c, s). s = ''+'') (zip cols (effective_signs a))) \<and>
         priv_regressor_col m = priv_regular_regressor_col m @ priv_positive_regressor_col m"
proof -
  from assms(1) obtain m1 m2 where
    d: "set_default_args (init_fields a) = Inr m1" and
    s: "set_static_regression_attributes m1 = Inr m2" and
    c: "m = m2 \<or> set_coef_prior_idx m2 = Inr m"
    by (auto simp: KTRModel_init_def set_static_attributes_def then_e_Inr_iff split: if_splits)
  have e: "(case arg_regressor_sign a of Some signs \<Rightarrow> signs
            | None \<Rightarrow> replicate (length cols) DEFAULT_REGRESSOR_SIGN) = effective_signs a"
    by (simp add: effective_signs_def assms(2) split: option.splits)
  from set_default_args_cols[OF d assms(2)] have
    "regressor_col m1 = Some cols" "priv_num_of_regressors m1 = length cols"
    "priv_regressor_sign m1 = Some (effective_signs a)"
    "priv_regular_regressor_col m1 = []" "priv_positive_regressor_col m1 = []"
    "priv_regressor_col m1 = []"
    by (simp_all add: e)
  from static_cols[OF s this] c set_coef_prior_idx_cols[of m2 m] show ?thesis
    by auto
qed

text \<open>
  C6 (regressors are partitioned by sign, unconstrained first). For every construction
  that succeeds, whatever the order of the sign tags: the regular group holds the columns
  whose tag is not \<open>'+'\<close> and the positive group those whose tag is \<open>'+'\<close>, each in the
  declared order; the combined column list is the regular group followed by the positive
  group; and \<open>_concat_regression_coefs\<close> puts, row by row, the regular coefficients before
  the positive ones.
\<close>

theorem regressors_unconstrained_first:
  assumes "KTRModel_init a = Inr m" and "arg_regressor_col a = Some cols"
  shows "priv_regular_regressor_col m =
           map fst (filter (\<lambda>(c, s). s \<noteq> ''+'') (zip cols (effective_signs a))) \<and>
         priv_positive_regressor_col m =
           map fst (filter (\<lambda>(c, s). s = ''+'') (zip cols (effective_signs a))) \<and>
         priv_regressor_col m = priv_regular_regressor_col m @ priv_positive_regressor_col m \<and>
         (\<forall>pr rr. length rr = length pr \<longrightarrow>
            concat_regression_coefs (Some (T2 pr)) (Some (T2 rr)) =
              Inr (Some (T2 (map2 (@) rr pr))))"
  using init_cols[OF assms] by (simp add: concat_regression_coefs_def)

theorem regressors_unconstrained_first_witness:
  "\<exists>m. KTRModel_init (default_args\<lparr>arg_regressor_col := Some [''a'', ''b'', ''c''],
                                    arg_regressor_sign := Some [''+'', ''='', ''+'']\<rparr>) = Inr m \<and>
       priv_regular_regressor_col m = [''b''] \<and>
       priv_positive_regressor_col m = [''a'', ''c''] \<and>
       priv_regressor_col m = [''b'', ''a'', ''c''] \<and>
       concat_regression_coefs (Some (T2 [[3]])) (Some (T2 [[1, 2]])) =
         Inr (Some (T2 [[1, 2, 3]]))"
proof -
  let ?a = "default_args\<lparr>arg_regressor_col := Some [''a'', ''b'', ''c''],
                         arg_regressor_sign := Some [''+'', ''='', ''+'']\<rparr>"
  have "\<exists>m. KTRModel_init ?a = Inr m"
    by (simp add: init_defs default_args_def)
  then obtain m where m: "KTRModel_init ?a = Inr m" ..
  have c: "arg_regressor_col ?a = Some [''a'', ''b'', ''c'']"
    by simp
  from regressors_unconstrained_first[OF m c] have
    "priv_regular_regressor_col m = [''b'']" "priv_positive_regressor_col m = [''a'', ''c'']"
    "priv_regressor_col m = [''b'', ''a'', ''c'']"
    "concat_regression_coefs (Some (T2 [[3]])) (Some (T2 [[1, 2]])) = Inr (Some (T2 [[1, 2, 3]]))"
    by (simp_all add: effective_signs_def)
  with m show ?thesis by blast
qed

subsection \<open>A model without regressors\<close>

lemma set_regressor_matrix_num:
  "set_regressor_matrix m df tm = Inr m' \<Longrightarrow> priv_num_of_regressors m' = priv_num_of_regressors m"
  by (auto simp: set_regressor_matrix_def Let_def split: if_splits)

lemma place_knots_num:
  "place_knots m df tm = Inr m' \<Longrightarrow> priv_num_of_regressors m' = priv_num_of_regressors m"
  by (auto simp: place_knots_def Let_def then_e_Inr_iff split: option.splits)

lemma set_coefficients_kernel_matrix_num:
  "set_coefficients_kernel_matrix m df tm = Inr m' \<Longrightarrow>
     priv_num_of_regressors m' = priv_num_of_regressors m"
  by (auto simp: set_coefficients_kernel_matrix_def Let_def then_e_Inr_iff
           dest!: place_knots_num split: if_splits option.splits)

lemma set_knots_scale_matrix_num:
  assumes "set_knots_scale_matrix m df tm = Inr m'"
  shows "priv_num_of_regressors m' = priv_num_of_regressors m"
proof -
  from assms obtain m1 where
    a: "(if priv_num_of_positive_regressors m > 0 then
           then_e (positive_multiplier m tm) (\<lambda>multiplier.
             Inr (m\<lparr>priv_positive_regressor_knot_scale_2d :=
                        Some (scale_rows multiplier (priv_positive_regressor_knot_scale m)),
                      priv_positive_regressor_init_knot_scale :=
                        map (\<lambda>x. max x (1 / 10000)) (priv_positive_regressor_init_knot_scale m)\<rparr>))
         else Inr m) = Inr m1" and
    b: "(if priv_num_of_regular_regressors m1 > 0 then
           then_e (regular_multiplier m1 tm) (\<lambda>multiplier.
             Inr (m1\<lparr>priv_regular_regressor_knot_scale_2d :=
                        Some (scale_rows multiplier (priv_regular_regressor_knot_scale m1)),
                      priv_regular_regressor_init_knot_scale :=
                        map (\<lambda>x. max x (1 / 10000)) (priv_regular_regressor_init_knot_scale m1)\<rparr>))
         else Inr m1) = Inr m'"
    unfolding set_knots_scale_matrix_def then_e_Inr_iff by blast
  from a have "priv_num_of_regressors m1 = priv_num_of_regressors m"
    by (cases "priv_num_of_positive_regressors m > 0") (auto simp: then_e_Inr_iff)
  moreover from b have "priv_num_of_regressors m' = priv_num_of_regressors m1"
    by (cases "priv_num_of_regular_regressors m1 > 0") (auto simp: then_e_Inr_iff)
  ultimately show ?thesis by simp
qed

lemma set_levs_and_seas_num:
  "set_levs_and_seas m boot df tm = Inr m' \<Longrightarrow>
     priv_num_of_regressors m' = priv_num_of_regressors m"
  by (auto simp: set_levs_and_seas_def then_e_Inr_iff split: if_splits)

lemma filter_coef_prior_num:
  "filter_coef_prior m df = Inr m' \<Longrightarrow> priv_num_of_regressors m' = priv_num_of_regressors m"
  by (auto simp: filter_coef_prior_def then_e_Inr_iff split: if_splits)

lemma set_dynamic_attributes_num:
  assumes "set_dynamic_attributes m boot df tm = Inr m'"
  shows "priv_num_of_regressors m' = priv_num_of_regressors m"
proof -
  from assms obtain m1 m2 m3 m4 where
    "set_regressor_matrix m df tm = Inr m1" "set_coefficients_kernel_matrix m1 df tm = Inr m2"
    "set_knots_scale_matrix m2 df tm = Inr m3" "set_levs_and_seas m3 boot df tm = Inr m4"
    "filter_coef_prior m4 df = Inr m'"
    by (auto simp: set_dynamic_attributes_def then_e_Inr_iff)
  then show ?thesis
    using set_regressor_matrix_num set_coefficients_kernel_matrix_num set_knots_scale_matrix_num
      set_levs_and_seas_num filter_coef_prior_num by metis
qed




subsection \<open>The coefficient prior filter\<close>

lemmas prior_defs =
  validate_coef_prior_def set_coef_prior_idx_def filter_coef_prior_def window_prior_def
  mean_first_prior_def documented_keys_def update_key_def frame10_def broadcast_to_def
  row_to_def




text \<open>
  A comparison of two dictionaries is settled at the first key whose values differ. The
  keys other than the mean and the sd hold strings, integers and lists of them, whose
  comparison cannot raise.
\<close>

lemma mean_first_keys:
  "{PRIOR_MEAN, PRIOR_SD, NAME, PRIOR_START_TP_IDX, PRIOR_END_TP_IDX, PRIOR_REGRESSOR_COL} =
   {NAME, PRIOR_START_TP_IDX, PRIOR_END_TP_IDX, PRIOR_MEAN, PRIOR_SD, PRIOR_REGRESSOR_COL}"
  by auto









text \<open>
  Outside the hypothesis on the keys the removal can fail. With the mean written first, the
  prior kept earlier holds an array of 2 rows where the prior to remove holds a list, and
  \<open>list.remove\<close> raises \<open>ValueError\<close> on the truth value of their elementwise comparison;
  with the documented order of the keys the same priors are filtered without an error.
\<close>

lemma prior_removal_depends_on_key_order:
  "then_e (KTRModel_init (default_args\<lparr>arg_regressor_col := Some [''x''],
                                        arg_coef_prior_list :=
                                          Some [mean_first_prior ''kept'' 2 4,
                                                mean_first_prior ''empty'' 5 3]\<rparr>))
     (\<lambda>m. filter_coef_prior m frame10) = Inl ValueError
   \<and> map_sum id (\<lambda>m. map prior_name (priv_coef_prior_list m))
       (then_e (KTRModel_init (default_args\<lparr>arg_regressor_col := Some [''x''],
                                             arg_coef_prior_list :=
                                               Some [window_prior ''kept'' 2 4,
                                                     window_prior ''empty'' 5 3]\<rparr>))
          (\<lambda>m. filter_coef_prior m frame10))
     = Inr [''kept'']"
  by (simp add: init_defs default_args_def prior_defs dict_equal_def array_equal_truth_def
        mat_bc_def vec_bc_def then_e_def mean_first_keys replicate_two)

subsection \<open>Time positions\<close>

lemma filter_upt_single:
  assumes "i < n" and "\<And>j. j < n \<Longrightarrow> P j = (j = i)"
  shows "filter P [0..<n] = [i]"
proof -
  have s: "[0..<n] = [0..<i] @ i # [Suc i..<n]"
    using assms(1) by (metis le_add1 less_imp_add_positive upt_add_eq_append upt_conv_Cons plus_nat.add_0)
  have a: "filter P [0..<i] = []"
    using assms by (auto simp: filter_empty_conv)
  have b: "filter P [Suc i..<n] = []"
    using assms by (auto simp: filter_empty_conv)
  show ?thesis
    unfolding s using a b assms by simp
qed

lemma get_loc_found:
  assumes "distinct ds" and "i < length ds" and "ds ! i = d"
  shows "get_loc ds d = Inr i"
proof -
  have "filter (\<lambda>j. ds ! j = d) [0..<length ds] = [i]"
    using assms by (intro filter_upt_single) (auto simp: nth_eq_iff_index_eq)
  then show ?thesis by (simp add: get_loc_def)
qed

lemma get_loc_missing:
  assumes "d \<notin> set ds"
  shows "get_loc ds d = Inl KeyError"
proof -
  have "filter (\<lambda>j. ds ! j = d) [0..<length ds] = []"
    using assms by (auto simp: filter_empty_conv)
  then show ?thesis by (simp add: get_loc_def)
qed

lemma time_points_nth:
  "i < N \<Longrightarrow> time_points N ! i = real (i + 1) / real N"
  by (simp add: time_points_def)

lemma generate_tp_eq:
  assumes "ds \<noteq> []"
  shows "generate_tp tm ds =
           then_e (start_index tm (hd ds)) (\<lambda>start.
             Inr (map (\<lambda>k. real (start + 1 + k) / real (num_of_observations tm))
                      [0..<length ds]))"
  using assms by (cases ds) (simp_all add: generate_tp_def new_time_points_def)

text \<open>
  C8 (normalized time positions). For a training set of \<open>N > 0\<close> observations the time
  position of index \<open>i\<close> is \<open>(i + 1) / N\<close>: the positions lie in \<open>(0, 1]\<close>, the first is
  \<open>1 / N\<close> and the last is 1. For a prediction date array that starts after the training
  end the start offset is \<open>N\<close> and the positions continue with \<open>(N + 1) / N\<close>; a start
  inside the training range is looked up in the training date index by exact match, and
  raises \<open>KeyError\<close> when it is not there.
\<close>

theorem normalized_time_positions:
  assumes "0 < num_of_observations tm"
  shows "length (time_points (num_of_observations tm)) = num_of_observations tm \<and>
         (\<forall>i < num_of_observations tm.
            time_points (num_of_observations tm) ! i = real (i + 1) / real (num_of_observations tm) \<and>
            0 < time_points (num_of_observations tm) ! i \<and>
            time_points (num_of_observations tm) ! i \<le> 1) \<and>
         hd (time_points (num_of_observations tm)) = 1 / real (num_of_observations tm) \<and>
         last (time_points (num_of_observations tm)) = 1 \<and>
         (ds \<noteq> [] \<and> hd ds > training_end tm \<longrightarrow>
            start_index tm (hd ds) = Inr (num_of_observations tm) \<and>
            generate_tp tm ds =
              Inr (map (\<lambda>k. real (num_of_observations tm + 1 + k) / real (num_of_observations tm))
                       [0..<length ds])) \<and>
         (ds \<noteq> [] \<and> hd ds \<le> training_end tm \<and> distinct (date_array tm) \<and>
          i < length (date_array tm) \<and> date_array tm ! i = hd ds \<longrightarrow>
            start_index tm (hd ds) = Inr i \<and>
            generate_tp tm ds =
              Inr (map (\<lambda>k. real (i + 1 + k) / real (num_of_observations tm)) [0..<length ds])) \<and>
         (ds \<noteq> [] \<and> hd ds \<le> training_end tm \<and> hd ds \<notin> set (date_array tm) \<longrightarrow>
            generate_tp tm ds = Inl KeyError)"
proof -
  let ?N = "num_of_observations tm"
  have 1: "length (time_points ?N) = ?N"
    by (simp add: time_points_def)
  have 2: "\<forall>i < ?N. time_points ?N ! i = real (i + 1) / real ?N \<and>
             0 < time_points ?N ! i \<and> time_points ?N ! i \<le> 1"
    using assms by (auto simp: time_points_nth)
  have ne: "time_points ?N \<noteq> []"
    using assms 1 by (metis length_0_conv less_numeral_extra(3))
  have 3: "hd (time_points ?N) = 1 / real ?N"
    using assms time_points_nth[of 0 ?N] by (simp add: hd_conv_nth[OF ne])
  have 4: "last (time_points ?N) = 1"
    using assms time_points_nth[of "?N - 1" ?N] by (simp add: last_conv_nth[OF ne] 1)
  have 5: "start_index tm (hd ds) = Inr ?N \<and>
           generate_tp tm ds = Inr (map (\<lambda>k. real (?N + 1 + k) / real ?N) [0..<length ds])"
    if "ds \<noteq> []" "hd ds > training_end tm"
    using that by (simp add: generate_tp_eq start_index_def then_e_def)
  have 6: "start_index tm (hd ds) = Inr i \<and>
           generate_tp tm ds = Inr (map (\<lambda>k. real (i + 1 + k) / real ?N) [0..<length ds])"
    if "ds \<noteq> []" "hd ds \<le> training_end tm" "distinct (date_array tm)"
       "i < length (date_array tm)" "date_array tm ! i = hd ds"
    using that get_loc_found[OF that(3,4,5)]
    by (simp add: generate_tp_eq start_index_def then_e_def)
  have 7: "generate_tp tm ds = Inl KeyError"
    if "ds \<noteq> []" "hd ds \<le> training_end tm" "hd ds \<notin> set (date_array tm)"
    using that get_loc_missing[OF that(3)]
    by (simp add: generate_tp_eq start_index_def then_e_def)
  from 1 2 3 4 5 6 7 show ?thesis by blast
qed

theorem normalized_time_positions_witness:
  "0 < num_of_observations meta4 \<and>
   time_points 4 = [1 / 4, 1 / 2, 3 / 4, 1] \<and>
   generate_tp meta4 [4, 5] = Inr [5 / 4, 3 / 2] \<and>
   generate_tp meta4 [2, 3, 4] = Inr [3 / 4, 1, 5 / 4] \<and>
   generate_tp meta4 [- 1, 0] = Inl KeyError"
proof -
  have n: "0 < num_of_observations meta4"
    by (simp add: meta4_def)
  have a: "time_points 4 = [1 / 4, 1 / 2, 3 / 4, 1]"
    by (simp add: time_points_def upt_conv_Cons)
  have "generate_tp meta4 [4, 5] = Inr [5 / 4, 3 / 2]"
    using normalized_time_positions[OF n, of "[4, 5]"]
    by (simp add: meta4_def upt_conv_Cons)
  moreover have "generate_tp meta4 [2, 3, 4] = Inr [3 / 4, 1, 5 / 4]"
    using normalized_time_positions[OF n, of "[2, 3, 4]" 2]
    by (simp add: meta4_def upt_conv_Cons)
  moreover have "generate_tp meta4 [- 1, 0] = Inl KeyError"
    using normalized_time_positions[OF n, of "[- 1, 0]"]
    by (simp add: meta4_def)
  ultimately show ?thesis using n a by blast
qed

subsection \<open>Coefficient curves for explicit dates\<close>

lemma is_ordered_datetime_iff: "is_ordered_datetime ds \<longleftrightarrow> sorted_wrt (<) ds"
  by (induction ds rule: is_ordered_datetime.induct) (auto intro: less_trans)

text \<open>
  C9 (explicit dates are validated), as the code has it: for a model with at least one
  regressor, a date array that is not strictly increasing (unordered, or with a repeated
  date) raises \<open>IllegalArgument\<close>, and an ordered one whose first date lies before the
  training start raises \<open>ModelException\<close>; the result is the exception alone.
\<close>

theorem explicit_dates_are_validated:
  assumes "0 < priv_num_of_regular_regressors m + priv_num_of_positive_regressors m"
  shows "(\<not> sorted_wrt (<) ds \<longrightarrow>
            get_regression_coefs_matrix m tm post (Some ds) = Inl IllegalArgument) \<and>
         (sorted_wrt (<) ds \<and> ds \<noteq> [] \<and> hd ds < training_start tm \<longrightarrow>
            get_regression_coefs_matrix m tm post (Some ds) = Inl ModelException)"
  using assms
  by (cases ds) (auto simp: get_regression_coefs_matrix_def is_ordered_datetime_iff)

theorem explicit_dates_are_validated_witness:
  "\<exists>m. fit_knots (default_args\<lparr>arg_regressor_col := Some [''x'']\<rparr>) frame4 meta4 = Inr m \<and>
       0 < priv_num_of_regular_regressors m + priv_num_of_positive_regressors m \<and>
       get_regression_coefs_matrix m meta4 post_coef (Some [2, 1]) = Inl IllegalArgument \<and>
       get_regression_coefs_matrix m meta4 post_coef (Some [1, 1]) = Inl IllegalArgument \<and>
       get_regression_coefs_matrix m meta4 post_coef (Some [- 1, 0]) = Inl ModelException"
proof -
  let ?a = "default_args\<lparr>arg_regressor_col := Some [''x'']\<rparr>"
  define m where "m = projr (fit_knots ?a frame4 meta4)"
  have 1: "fit_knots ?a frame4 meta4 = Inr m"
    unfolding m_def by (simp add: init_defs knot_defs default_args_def frame4_def meta4_def)
  have 2: "0 < priv_num_of_regular_regressors m + priv_num_of_positive_regressors m"
    unfolding m_def by (simp add: init_defs knot_defs default_args_def frame4_def meta4_def)
  have s: "training_start meta4 = 0"
    by (simp add: meta4_def)
  from explicit_dates_are_validated[OF 2, of "[2, 1]" meta4 post_coef]
       explicit_dates_are_validated[OF 2, of "[1, 1]" meta4 post_coef]
       explicit_dates_are_validated[OF 2, of "[- 1, 0]" meta4 post_coef] s 1 2
  show ?thesis by auto
qed

text \<open>
  The claim as stated fails for a model without regressors: the method returns \<open>None\<close>
  before it looks at the dates, for an unordered date array and for one that starts before
  the training start.
\<close>

theorem explicit_dates_counterexample:
  "then_e (KTRModel_init default_args)
     (\<lambda>m. get_regression_coefs_matrix m meta4 post1 (Some [2, 1])) = Inr None
   \<and> then_e (KTRModel_init default_args)
       (\<lambda>m. get_regression_coefs_matrix m meta4 post1 (Some [- 1, 0])) = Inr None"
  by (simp add: init_defs default_args_def get_regression_coefs_matrix_def)

text \<open>
  C3 (round trip at the training dates). The explicit-date path reads
  \<open>self.rho_coefficients\<close> (line 1004), an attribute that the class never assigns: the
  constructor keeps the bandwidth as \<open>regression_rho\<close>, which the training kernel uses
  (line 535). For the model with one regressor fitted on four rows, the in-sample path
  returns the curve, and the explicit-date path at the training dates raises
  \<open>AttributeError\<close>.
\<close>

theorem explicit_dates_read_missing_bandwidth:
  "then_e (fit_knots (default_args\<lparr>arg_regressor_col := Some [''x'']\<rparr>) frame4 meta4)
     (\<lambda>m. get_regression_coefs_matrix m meta4 post_coef (Some (date_array meta4)))
   = Inl AttributeError
   \<and> then_e (fit_knots (default_args\<lparr>arg_regressor_col := Some [''x'']\<rparr>) frame4 meta4)
       (\<lambda>m. get_regression_coefs_matrix m meta4 post_coef None)
     = Inr (Some [map (\<lambda>t. [exp (- ((t - 3 / 4)\<^sup>2) / (2 * (15 / 100)\<^sup>2)) * 2])
                      [1 / 4, 1 / 2, 3 / 4, 1]])"
  by (simp add: init_defs knot_defs default_args_def frame4_def meta4_def post_coef_def
        get_regression_coefs_matrix_def start_index_def get_loc_def coef_curves_def matmul_t_def
        dot_def gauss_kernel_def time_points_def new_time_points_def)

subsection \<open>The seasonal attribute\<close>

text \<open>
  No step of the construction and no step of \<open>set_dynamic_attributes\<close> creates the
  attribute \<open>_seasonal_knots_input\<close>.
\<close>

lemma file_regressor_seasonal:
  "file_regressor m i s = Inr m' \<Longrightarrow>
     priv_seasonal_knots_input m' = priv_seasonal_knots_input m"
  by (auto simp: file_regressor_def then_e_Inr_iff nth_e_def split: option.splits if_splits)

lemma file_regressors_seasonal:
  "file_regressors m i signs = Inr m' \<Longrightarrow>
     priv_seasonal_knots_input m' = priv_seasonal_knots_input m"
proof (induction signs arbitrary: m i)
  case Nil
  then show ?case by simp
next
  case (Cons s signs)
  from Cons.prems obtain m1 where
    m1: "file_regressor m i s = Inr m1" and rest: "file_regressors m1 (Suc i) signs = Inr m'"
    by (auto simp: then_e_Inr_iff)
  from Cons.IH[OF rest] file_regressor_seasonal[OF m1] show ?case
    by simp
qed

lemma set_default_args_seasonal:
  "set_default_args (init_fields a) = Inr m \<Longrightarrow> priv_seasonal_knots_input m = None"
  by (auto simp: set_default_args_def init_fields_def then_e_Inr_iff Let_def
           split: option.splits)

lemma static_seasonal:
  "set_static_regression_attributes m = Inr m' \<Longrightarrow>
     priv_seasonal_knots_input m' = priv_seasonal_knots_input m"
  by (auto simp: set_static_regression_attributes_def then_e_Inr_iff
           dest!: file_regressors_seasonal split: if_splits option.splits)

lemma set_coef_prior_idx_seasonal:
  "set_coef_prior_idx m = Inr m' \<Longrightarrow>
     priv_seasonal_knots_input m' = priv_seasonal_knots_input m"
  by (auto simp: set_coef_prior_idx_def then_e_Inr_iff split: if_splits)

lemma init_seasonal:
  assumes "KTRModel_init a = Inr m"
  shows "priv_seasonal_knots_input m = None"
proof -
  from assms obtain m1 m2 where
    d: "set_default_args (init_fields a) = Inr m1" and
    s: "set_static_regression_attributes m1 = Inr m2" and
    c: "m = m2 \<or> set_coef_prior_idx m2 = Inr m"
    by (auto simp: KTRModel_init_def set_static_attributes_def then_e_Inr_iff split: if_splits)
  from set_default_args_seasonal[OF d] static_seasonal[OF s]
  have "priv_seasonal_knots_input m2 = None"
    by simp
  with c show ?thesis
    using set_coef_prior_idx_seasonal by auto
qed

lemma set_regressor_matrix_seasonal:
  "set_regressor_matrix m df tm = Inr m' \<Longrightarrow>
     priv_seasonal_knots_input m' = priv_seasonal_knots_input m"
  by (auto simp: set_regressor_matrix_def Let_def split: if_splits)

lemma place_knots_seasonal:
  "place_knots m df tm = Inr m' \<Longrightarrow>
     priv_seasonal_knots_input m' = priv_seasonal_knots_input m"
  by (auto simp: place_knots_def Let_def then_e_Inr_iff split: option.splits)

lemma set_coefficients_kernel_matrix_seasonal:
  "set_coefficients_kernel_matrix m df tm = Inr m' \<Longrightarrow>
     priv_seasonal_knots_input m' = priv_seasonal_knots_input m"
  by (auto simp: set_coefficients_kernel_matrix_def Let_def then_e_Inr_iff
           dest!: place_knots_seasonal split: if_splits option.splits)

lemma set_knots_scale_matrix_seasonal:
  assumes "set_knots_scale_matrix m df tm = Inr m'"
  shows "priv_seasonal_knots_input m' = priv_seasonal_knots_input m"
proof -
  from assms obtain m1 where
    a: "(if priv_num_of_positive_regressors m > 0 then
           then_e (positive_multiplier m tm) (\<lambda>multiplier.
             Inr (m\<lparr>priv_positive_regressor_knot_scale_2d :=
                        Some (scale_rows multiplier (priv_positive_regressor_knot_scale m)),
                      priv_positive_regressor_init_knot_scale :=
                        map (\<lambda>x. max x (1 / 10000)) (priv_positive_regressor_init_knot_scale m)\<rparr>))
         else Inr m) = Inr m1" and
    b: "(if priv_num_of_regular_regressors m1 > 0 then
           then_e (regular_multiplier m1 tm) (\<lambda>multiplier.
             Inr (m1\<lparr>priv_regular_regressor_knot_scale_2d :=
                        Some (scale_rows multiplier (priv_regular_regressor_knot_scale m1)),
                      priv_regular_regressor_init_knot_scale :=
                        map (\<lambda>x. max x (1 / 10000)) (priv_regular_regressor_init_knot_scale m1)\<rparr>))
         else Inr m1) = Inr m'"
    unfolding set_knots_scale_matrix_def then_e_Inr_iff by blast
  from a have "priv_seasonal_knots_input m1 = priv_seasonal_knots_input m"
    by (cases "priv_num_of_positive_regressors m > 0") (auto simp: then_e_Inr_iff)
  moreover from b have "priv_seasonal_knots_input m' = priv_seasonal_knots_input m1"
    by (cases "priv_num_of_regular_regressors m1 > 0") (auto simp: then_e_Inr_iff)
  ultimately show ?thesis by simp
qed

lemma set_levs_and_seas_seasonal:
  "set_levs_and_seas m boot df tm = Inr m' \<Longrightarrow>
     priv_seasonal_knots_input m' = priv_seasonal_knots_input m"
  by (auto simp: set_levs_and_seas_def then_e_Inr_iff split: if_splits)

lemma filter_coef_prior_seasonal:
  "filter_coef_prior m df = Inr m' \<Longrightarrow>
     priv_seasonal_knots_input m' = priv_seasonal_knots_input m"
  by (auto simp: filter_coef_prior_def then_e_Inr_iff split: if_splits)

lemma set_dynamic_attributes_seasonal:
  assumes "set_dynamic_attributes m boot df tm = Inr m'"
  shows "priv_seasonal_knots_input m' = priv_seasonal_knots_input m"
proof -
  from assms obtain m1 m2 m3 m4 where
    "set_regressor_matrix m df tm = Inr m1" "set_coefficients_kernel_matrix m1 df tm = Inr m2"
    "set_knots_scale_matrix m2 df tm = Inr m3" "set_levs_and_seas m3 boot df tm = Inr m4"
    "filter_coef_prior m4 df = Inr m'"
    by (auto simp: set_dynamic_attributes_def then_e_Inr_iff)
  then show ?thesis
    using set_regressor_matrix_seasonal set_coefficients_kernel_matrix_seasonal
      set_knots_scale_matrix_seasonal set_levs_and_seas_seasonal filter_coef_prior_seasonal
    by metis
qed

lemma fitted_seasonal:
  assumes "fitted a boot df tm = Inr m"
  shows "priv_seasonal_knots_input m = None"
proof -
  from assms obtain m0 where
    "KTRModel_init a = Inr m0" "set_dynamic_attributes m0 boot df tm = Inr m"
    by (auto simp: fitted_def then_e_Inr_iff)
  with init_seasonal set_dynamic_attributes_seasonal show ?thesis
    by metis
qed

subsection \<open>Prediction\<close>

text \<open>
  Without the attribute, \<open>predict\<close> finds the start index and the level knots and then
  raises \<open>AttributeError\<close> at line 893, before the trend is computed.
\<close>

lemma predict_stops_at_seasonal_attribute:
  assumes "priv_seasonal_knots_input m = None"
  shows "predict m ext post df tm pm include_error =
           then_e (start_index tm (prediction_start pm)) (\<lambda>start.
           then_e (level_knots m ext post
                     (new_time_points start (df_length pm) (num_of_observations tm))
                     include_error) (\<lambda>knots. Inl AttributeError))"
  using assms
  by (simp add: predict_def seasonal_input_def Let_def then_e_def
           split: sum.splits prod.splits)

lemma predict_of_fitted:
  "then_e (fitted a boot df tm) (\<lambda>m. predict m ext post df' tm' pm include_error) =
   then_e (fitted a boot df tm) (\<lambda>m.
     then_e (start_index tm' (prediction_start pm)) (\<lambda>start.
     then_e (level_knots m ext post
               (new_time_points start (df_length pm) (num_of_observations tm'))
               include_error) (\<lambda>knots. Inl AttributeError)))"
proof (cases "fitted a boot df tm")
  case (Inl e)
  then show ?thesis by (simp add: then_e_def)
next
  case (Inr m)
  from predict_stops_at_seasonal_attribute[OF fitted_seasonal[OF Inr]] Inr show ?thesis
    by (simp add: then_e_def)
qed

text \<open>
  C7 (the decomposition returned by a prediction). Every call of \<open>predict\<close> on a model that
  was constructed and fitted ends in an exception, whatever the arguments, so no call
  returns the dictionary of the four components. Where the start index and the level knots
  are found the exception is the \<open>AttributeError\<close> of line 893: on the default model
  fitted on four rows, with a sample bundle of two samples and no noise.
\<close>

theorem predict_never_returns:
  "isl (then_e (fitted a boot df tm) (\<lambda>m. predict m ext post df' tm' pm include_error)) \<and>
   then_e (fitted default_args boot2 frame4 meta4)
     (\<lambda>m. predict m ext post2 frame4 meta4 pm4 False) = Inl AttributeError"
proof
  show "isl (then_e (fitted a boot df tm) (\<lambda>m. predict m ext post df' tm' pm include_error))"
    unfolding predict_of_fitted
    by (simp add: then_e_def split: sum.splits)
  show "then_e (fitted default_args boot2 frame4 meta4)
          (\<lambda>m. predict m ext post2 frame4 meta4 pm4 False) = Inl AttributeError"
    unfolding predict_of_fitted
    by (simp add: init_defs default_args_def dyn_defs boot2_def frame4_def meta4_def
          fitted_def start_index_def get_loc_def new_time_points_def level_knots_def
          post2_def pm4_def)
qed


end
